theory Spec2Isabelle
  imports Complex_Main
begin

section \<open>JavaScript strings and regular expressions\<close>

text \<open>
  A JavaScript string is a sequence of UTF-16 code units, here a list of integers from 0
  to 65535; \<open>u\<close> gives the code units of a literal of the source, whose characters are
  all ASCII. The scanner inspects the fetched page with \<^verbatim>\<open>String.prototype.match\<close>,
  \<^verbatim>\<open>RegExp.prototype.test\<close>, \<^verbatim>\<open>includes\<close> and \<^verbatim>\<open>startsWith\<close>, none of them with the
  \<^verbatim>\<open>u\<close> flag, so they work on code units too. A regular expression is a term of type
  \<open>rx\<close>; the matcher \<open>ms\<close> returns every way the expression can match at a position, in the
  priority order of a backtracking matcher (greedy iteration tries the longer match first,
  a lazy one the shorter, an alternative its left branch first), so the head of the list
  is the match JavaScript reports. A position is the code unit just before it (for
  \<^verbatim>\<open>\b\<close>) and the text that remains.
\<close>

type_synonym str = "int list"

definition u :: "string \<Rightarrow> str" where
  "u s = map of_char s"

datatype rx =
    Chr "int \<Rightarrow> bool"
  | Eps
  | Seq rx rx
  | Alt rx rx
  | Star rx
  | Lazy rx
  | NLook rx
  | WordB

type_synonym pos = "int option \<times> str"

definition word_chars :: string where
  "word_chars = ''abcdefghijklmnopqrstuvwxyzABCDEFGHIJKLMNOPQRSTUVWXYZ0123456789_''"

definition is_word :: "int option \<Rightarrow> bool" where
  "is_word p = (case p of None \<Rightarrow> False | Some c \<Rightarrow> c \<in> set (u word_chars))"

fun ms :: "rx \<Rightarrow> pos \<Rightarrow> pos list" where
  "ms (Chr P) ps = (case snd ps of [] \<Rightarrow> [] | c # t \<Rightarrow> if P c then [(Some c, t)] else [])"
| "ms Eps ps = [ps]"
| "ms (Seq a b) ps = concat (map (ms b) (ms a ps))"
| "ms (Alt a b) ps = ms a ps @ ms b ps"
| "ms (Star a) ps =
     concat (map (ms (Star a)) (filter (\<lambda>q. length (snd q) < length (snd ps)) (ms a ps))) @ [ps]"
| "ms (Lazy a) ps =
     ps # concat (map (ms (Lazy a)) (filter (\<lambda>q. length (snd q) < length (snd ps)) (ms a ps)))"
| "ms (NLook a) ps = (if ms a ps = [] then [ps] else [])"
| "ms WordB ps =
     (if is_word (fst ps) \<noteq> is_word (case snd ps of [] \<Rightarrow> None | c # _ \<Rightarrow> Some c)
      then [ps] else [])"

text \<open>
  The \<^verbatim>\<open>i\<close> flag compares the upper-case forms of two code units, and a code unit outside
  ASCII never takes the form of an ASCII one. Every letter of the expressions of the
  scanner is ASCII, so folding the ASCII letters decides each comparison; \<open>lower\<close> and
  \<open>upper\<close> do it in either direction.
\<close>

definition lower :: "int \<Rightarrow> int" where
  "lower c = (if 65 \<le> c \<and> c \<le> 90 then c + 32 else c)"

definition upper :: "int \<Rightarrow> int" where
  "upper c = (if 97 \<le> c \<and> c \<le> 122 then c - 32 else c)"

text \<open>A literal, case-sensitive (\<open>lit\<close>) or under the \<^verbatim>\<open>i\<close> flag (\<open>liti\<close>).\<close>

fun lit :: "string \<Rightarrow> rx" where
  "lit [] = Eps"
| "lit (c # cs) = Seq (Chr (\<lambda>x. x = of_char c)) (lit cs)"

fun liti :: "string \<Rightarrow> rx" where
  "liti [] = Eps"
| "liti (c # cs) = Seq (Chr (\<lambda>x. lower x = lower (of_char c))) (liti cs)"

definition one_of :: "string \<Rightarrow> rx" where
  "one_of cs = Chr (\<lambda>c. c \<in> set (u cs))"

definition none_of :: "string \<Rightarrow> rx" where
  "none_of cs = Chr (\<lambda>c. c \<notin> set (u cs))"

definition any_char :: rx where
  "any_char = Chr (\<lambda>c. True)"

text \<open>
  The white space of \<^verbatim>\<open>\s\<close> and of \<^verbatim>\<open>trim\<close>: tab, line feed, vertical tab, form feed,
  carriage return, space, no-break space, the Ogham space mark, the spaces U+2000 to
  U+200A, the line and paragraph separators, the narrow no-break space, the medium
  mathematical space, the ideographic space and the byte order mark.
\<close>

definition space_chars :: str where
  "space_chars =
     [0x09, 0x0A, 0x0B, 0x0C, 0x0D, 0x20, 0xA0, 0x1680,
      0x2000, 0x2001, 0x2002, 0x2003, 0x2004, 0x2005, 0x2006, 0x2007, 0x2008, 0x2009, 0x200A,
      0x2028, 0x2029, 0x202F, 0x205F, 0x3000, 0xFEFF]"

definition ws :: rx where
  "ws = Chr (\<lambda>c. c \<in> set space_chars)"

definition digit :: rx where
  "digit = one_of ''0123456789''"

definition quote :: rx where
  "quote = one_of [CHR 0x22, CHR 0x27]"

definition not_quote :: rx where
  "not_quote = none_of [CHR 0x22, CHR 0x27]"

definition Plus :: "rx \<Rightarrow> rx" where
  "Plus r = Seq r (Star r)"

definition Opt :: "rx \<Rightarrow> rx" where
  "Opt r = Alt r Eps"

fun seqs :: "rx list \<Rightarrow> rx" where
  "seqs [] = Eps"
| "seqs (r # rs) = Seq r (seqs rs)"

text \<open>
  \<^verbatim>\<open>s.match(/r/g)\<close>: all matches from left to right, each search starting where the
  previous match ended (one code unit further after an empty match).
\<close>

function match_all :: "rx \<Rightarrow> pos \<Rightarrow> str list" where
  "match_all r ps =
     (case ms r ps of
        [] \<Rightarrow> (case snd ps of [] \<Rightarrow> [] | c # t \<Rightarrow> match_all r (Some c, t))
      | q # _ \<Rightarrow>
          take (length (snd ps) - length (snd q)) (snd ps) #
          (if length (snd q) < length (snd ps) then match_all r q
           else (case snd ps of [] \<Rightarrow> [] | c # t \<Rightarrow> match_all r (Some c, t))))"
  by pat_completeness auto
termination
  by (relation "measure (\<lambda>(r, ps). length (snd ps))") auto

definition js_match_g :: "str \<Rightarrow> rx \<Rightarrow> str list" where
  "js_match_g s r = match_all r (None, s)"

text \<open>\<^verbatim>\<open>/r/.test(s)\<close> and a non-global \<^verbatim>\<open>s.match(/r/)\<close>: the leftmost match.\<close>

fun first_match :: "rx \<Rightarrow> pos \<Rightarrow> str option" where
  "first_match r (p, s) =
     (case ms r (p, s) of
        q # _ \<Rightarrow> Some (take (length s - length (snd q)) s)
      | [] \<Rightarrow> (case s of [] \<Rightarrow> None | c # t \<Rightarrow> first_match r (Some c, t)))"

definition js_test :: "rx \<Rightarrow> str \<Rightarrow> bool" where
  "js_test r s = (first_match r (None, s) \<noteq> None)"

text \<open>
  A capture group: the expression is given as the parts before the group, the group and
  the parts after it; the leftmost match is split at the group's boundaries.
\<close>

fun first_group :: "rx \<Rightarrow> rx \<Rightarrow> rx \<Rightarrow> pos \<Rightarrow> str option" where
  "first_group pre grp post (p, s) =
     (case concat (map (\<lambda>a. concat (map (\<lambda>b. map (\<lambda>c. (a, b)) (ms post b)) (ms grp a)))
                       (ms pre (p, s))) of
        (a, b) # _ \<Rightarrow> Some (take (length (snd a) - length (snd b)) (snd a))
      | [] \<Rightarrow> (case s of [] \<Rightarrow> None | c # t \<Rightarrow> first_group pre grp post (Some c, t)))"

definition js_match_group :: "str \<Rightarrow> rx \<Rightarrow> rx \<Rightarrow> rx \<Rightarrow> str option" where
  "js_match_group s pre grp post = first_group pre grp post (None, s)"

definition startsWith :: "str \<Rightarrow> str \<Rightarrow> bool" where
  "startsWith s p = (take (length p) s = p)"

fun js_includes :: "str \<Rightarrow> str \<Rightarrow> bool" where
  "js_includes [] sub = (sub = [])"
| "js_includes (c # s) sub = (startsWith (c # s) sub \<or> js_includes s sub)"

definition trim :: "str \<Rightarrow> str" where
  "trim s = rev (dropWhile (\<lambda>c. c \<in> set space_chars)
                   (rev (dropWhile (\<lambda>c. c \<in> set space_chars) s)))"

text \<open>Decimal numerals, as a template literal prints an integer.\<close>

fun show_nat :: "nat \<Rightarrow> str" where
  "show_nat n =
     (if n < 10 then [48 + int n]
      else show_nat (n div 10) @ [48 + int (n mod 10)])"

definition show_int :: "int \<Rightarrow> str" where
  "show_int i = (if i < 0 then u ''-'' @ show_nat (nat (- i)) else show_nat (nat i))"

text \<open>
  \<^verbatim>\<open>Math.round\<close> rounds to the nearest integer, a half towards plus infinity. Numbers are
  exact rationals here: the binary rounding of a double is not modelled.
\<close>

definition js_round :: "rat \<Rightarrow> int" where
  "js_round x = \<lfloor>x + 1 / 2\<rfloor>"

declare match_all.simps [simp del]
declare first_match.simps [simp del]
declare first_group.simps [simp del]
declare show_nat.simps [simp del]

section \<open>Data model\<close>

text \<open>
  What a \<^verbatim>\<open>catch\<close> clause receives: an \<^verbatim>\<open>Error\<close> with its message, or some other
  thrown value.
\<close>

datatype thrown = Error str | NonError

text \<open>
  An HTTP response whose body has been read. \<^verbatim>\<open>Headers.get\<close> is keyed by the lower-case
  header name. A fetch either throws (network error, abort after the timeout, unreadable
  body) or yields a response.
\<close>

record response =
  ok :: bool
  http_status :: nat
  headers :: "str \<rightharpoonup> str"
  body :: str

type_synonym fetched = "thrown + response"

datatype status = Pending | Completed | Failed

record SecurityIssue =
  sec_severity :: str
  sec_category :: "str option"
  sec_description :: "str option"
  sec_message :: "str option"

record SecurityResults =
  sec_issues :: "SecurityIssue list"
  checks_performed :: int
  checks_passed :: int
  https_enabled :: bool

record LighthouseScores =
  lh_performance :: "int option"
  lh_seo :: "int option"
  lh_accessibility :: "int option"
  lh_bestPractices :: "int option"

record CoreWebVitals =
  fcp :: rat
  lcp :: rat
  tti :: rat
  tbt :: rat
  cls :: rat
  speedIndex :: rat

record Opportunity =
  opp_title :: str
  opp_description :: "str option"
  opp_score :: rat
  opp_savings :: "rat option"

record PerformanceResults =
  perf_score :: int
  load_time_ms :: int
  image_count :: "nat option"
  scripts_count :: "nat option"
  stylesheets_count :: "nat option"
  compression_enabled :: "bool option"
  caching_enabled :: "bool option"
  lighthouse_scores :: "LighthouseScores option"
  core_web_vitals :: "CoreWebVitals option"
  source :: "str option"
  opportunities :: "Opportunity list option"
  diagnostics :: "Opportunity list option"

record AccessibilityIssue =
  a11y_severity :: str
  a11y_message :: "str option"
  a11y_count :: "nat option"
  a11y_wcag :: "str option"

record AccessibilityResults =
  a11y_issues :: "AccessibilityIssue list"
  total_issues :: nat
  a11y_score :: int
  wcag_level :: "str option"

record E2EResults =
  buttons_found :: nat
  links_found :: nat
  forms_found :: nat
  primary_actions :: "str list"

record APIEndpoint =
  ep_method :: str
  ep_path :: str
  ep_status :: nat

record APIResults =
  endpoints_detected :: nat
  endpoints :: "APIEndpoint list"

record Technology =
  tech_name :: str
  tech_confidence :: str
  tech_version :: "str option"
  tech_category :: str

record TechStackResult =
  detected :: "Technology list"
  total_detected :: nat

text \<open>
  \<^verbatim>\<open>PipelineSection<T> = T & { status?, error? }\<close>. At run time a section is either an
  analyzer's return value, which carries every field of \<open>T\<close>, or one of the two literals
  \<^verbatim>\<open>{ status: 'pending' }\<close> and \<^verbatim>\<open>{ error, status: 'failed' }\<close> of \<^verbatim>\<open>performScan\<close>,
  which carry none: \<open>payload\<close> is \<open>None\<close> exactly then, and reading a field of \<open>T\<close>
  gives \<^verbatim>\<open>undefined\<close>.
\<close>

record 'a PipelineSection =
  payload :: "'a option"
  status :: "status option"
  error :: "str option"

record PipelineResults =
  e2e :: "E2EResults PipelineSection option"
  api :: "APIResults PipelineSection option"
  security :: "SecurityResults PipelineSection option"
  performance :: "PerformanceResults PipelineSection option"
  accessibility :: "AccessibilityResults PipelineSection option"
  techStack :: "TechStackResult PipelineSection option"

record TopIssue =
  category :: str
  severity :: str
  description :: str

text \<open>\<^verbatim>\<open>section?.status\<close> and \<^verbatim>\<open>section?.field\<close>.\<close>

definition status_of :: "'a PipelineSection option \<Rightarrow> status option" where
  "status_of sec = (case sec of None \<Rightarrow> None | Some s \<Rightarrow> status s)"

definition field_of :: "('a \<Rightarrow> 'b) \<Rightarrow> 'a PipelineSection option \<Rightarrow> 'b option" where
  "field_of f sec = (case sec of None \<Rightarrow> None | Some s \<Rightarrow> map_option f (payload s))"

text \<open>\<^verbatim>\<open>error instanceof Error ? error.message : fallback\<close>\<close>

definition message_or :: "thrown \<Rightarrow> str \<Rightarrow> str" where
  "message_or e fallback = (case e of Error m \<Rightarrow> m | NonError \<Rightarrow> fallback)"

section \<open>Security analyzer\<close>

text \<open>\<^verbatim>\<open>!headers.get(name)\<close>: the header is absent or empty.\<close>

definition header_missing :: "response \<Rightarrow> str \<Rightarrow> bool" where
  "header_missing r name = (case headers r name of None \<Rightarrow> True | Some v \<Rightarrow> v = [])"

definition security_issue :: "str \<Rightarrow> str \<Rightarrow> SecurityIssue" where
  "security_issue sev desc =
     \<lparr>sec_severity = sev, sec_category = Some (u ''Security''), sec_description = Some desc,
      sec_message = None\<rparr>"

text \<open>\<^verbatim>\<open>/document\.cookie\s*=/gi\<close>\<close>

definition rx_cookie :: rx where
  "rx_cookie = seqs [liti ''document.cookie'', Star ws, lit ''='']"

definition security_issues :: "response \<Rightarrow> SecurityIssue list" where
  "security_issues r =
     (if header_missing r (u ''strict-transport-security'')
      then [security_issue (u ''high'')
              (u ''Missing HSTS header - site vulnerable to protocol downgrade attacks'')]
      else []) @
     (if header_missing r (u ''x-content-type-options'')
      then [security_issue (u ''medium'')
              (u ''Missing X-Content-Type-Options header - vulnerable to MIME sniffing'')]
      else []) @
     (if header_missing r (u ''x-frame-options'') \<and> header_missing r (u ''content-security-policy'')
      then [security_issue (u ''high'')
              (u ''Missing X-Frame-Options/CSP - vulnerable to clickjacking attacks'')]
      else []) @
     (if header_missing r (u ''content-security-policy'')
      then [security_issue (u ''medium'')
              (u ''No Content-Security-Policy - vulnerable to XSS attacks'')]
      else []) @
     (if header_missing r (u ''x-xss-protection'')
      then [security_issue (u ''low'') (u ''Missing X-XSS-Protection header'')]
      else []) @
     (if length (js_match_g (body r) rx_cookie) > 0
      then [security_issue (u ''high'')
              (u ''JavaScript cookie manipulation detected - potential XSS vector'')]
      else [])"

definition performSecurityScan :: "str \<Rightarrow> fetched \<Rightarrow> SecurityResults PipelineSection" where
  "performSecurityScan url f =
     (case f of
        Inr r \<Rightarrow>
          (let issues = security_issues r in
           \<lparr>payload = Some \<lparr>sec_issues = issues, checks_performed = 7,
                             checks_passed = 7 - int (length issues),
                             https_enabled = startsWith url (u ''https'')\<rparr>,
            status = Some Completed, error = None\<rparr>)
      | Inl e \<Rightarrow>
          \<lparr>payload = Some \<lparr>sec_issues = [], checks_performed = 0, checks_passed = 0,
                            https_enabled = False\<rparr>,
           status = Some Failed, error = Some (message_or e (u ''Security scan failed''))\<rparr>)"

section \<open>API-surface analyzer\<close>

text \<open>
  \<^verbatim>\<open>/fetch\(["']([^"']+)["']|axios\.[a-z]+\(["']([^"']+)["']|\$\.ajax\(["']([^"']+)["']/g\<close>
\<close>

definition rx_api_call :: rx where
  "rx_api_call =
     Alt (seqs [lit ''fetch('', quote, Plus not_quote, quote])
    (Alt (seqs [lit ''axios.'', Plus (one_of ''abcdefghijklmnopqrstuvwxyz''), lit ''('',
                quote, Plus not_quote, quote])
         (seqs [lit ''$.ajax('', quote, Plus not_quote, quote]))"

text \<open>\<^verbatim>\<open>match.match(/["']([^"']+)["']/)?.[1]\<close>\<close>

definition quoted_path :: "str \<Rightarrow> str option" where
  "quoted_path m = js_match_group m quote (Plus not_quote) quote"

definition api_endpoints :: "str \<Rightarrow> APIEndpoint list" where
  "api_endpoints html =
     concat (map (\<lambda>m. case quoted_path m of
                          Some path \<Rightarrow>
                            if path \<noteq> [] \<and> startsWith path (u ''/'')
                            then [\<lparr>ep_method = (u ''GET''), ep_path = path, ep_status = 0\<rparr>]
                            else []
                        | None \<Rightarrow> [])
                 (js_match_g html rx_api_call))"

definition performAPIScan :: "str \<Rightarrow> fetched \<Rightarrow> APIResults PipelineSection" where
  "performAPIScan url f =
     (case f of
        Inr r \<Rightarrow>
          (let endpoints = api_endpoints (body r) in
           \<lparr>payload = Some \<lparr>endpoints_detected = length endpoints,
                             endpoints = take 10 endpoints\<rparr>,
            status = Some Completed, error = None\<rparr>)
      | Inl e \<Rightarrow>
          \<lparr>payload = Some \<lparr>endpoints_detected = 0, endpoints = []\<rparr>,
           status = Some Failed, error = Some (message_or e (u ''API scan failed''))\<rparr>)"

section \<open>Accessibility analyzer\<close>

text \<open>\<^verbatim>\<open>/<name[^>]*>/gi\<close>\<close>

definition rx_tag :: "string \<Rightarrow> rx" where
  "rx_tag name = seqs [liti (CHR ''<'' # name), Star (none_of ''>''), lit ''>'']"

text \<open>\<^verbatim>\<open>/<img(?![^>]*alt=)[^>]*>/gi\<close>\<close>

definition rx_img_without_alt :: rx where
  "rx_img_without_alt =
     seqs [liti ''<img'', NLook (Seq (Star (none_of ''>'')) (liti ''alt='')),
           Star (none_of ''>''), lit ''>'']"

text \<open>\<^verbatim>\<open>/<html[^>]*lang=/i\<close>\<close>

definition rx_html_lang :: rx where
  "rx_html_lang = seqs [liti ''<html'', Star (none_of ''>''), liti ''lang='']"

text \<open>\<^verbatim>\<open>/<button[^>]*>\s*<\/button>/gi\<close>\<close>

definition rx_empty_button :: rx where
  "rx_empty_button = seqs [liti ''<button'', Star (none_of ''>''), lit ''>'', Star ws,
                           liti ''</button>'']"

text \<open>\<^verbatim>\<open>/<h[1-6][^>]*>/gi\<close>\<close>

definition rx_heading :: rx where
  "rx_heading = seqs [liti ''<h'', one_of ''123456'', Star (none_of ''>''), lit ''>'']"

text \<open>\<^verbatim>\<open>/<a[^>]*href=[^>]*>\s*<\/a>/gi\<close>\<close>

definition rx_empty_link :: rx where
  "rx_empty_link = seqs [liti ''<a'', Star (none_of ''>''), liti ''href='', Star (none_of ''>''),
                         lit ''>'', Star ws, liti ''</a>'']"

text \<open>\<^verbatim>\<open>/<a[^>]*href=["']#(main|content|skip)["'][^>]*>/i\<close>\<close>

definition rx_skip_link :: rx where
  "rx_skip_link = seqs [liti ''<a'', Star (none_of ''>''), liti ''href='', quote, lit ''#'',
                        Alt (liti ''main'') (Alt (liti ''content'') (liti ''skip'')), quote,
                        Star (none_of ''>''), lit ''>'']"

text \<open>\<^verbatim>\<open>/tabindex=["']-\d+["']/gi\<close>\<close>

definition rx_tabindex_negative :: rx where
  "rx_tabindex_negative = seqs [liti ''tabindex='', quote, lit ''-'', Plus digit, quote]"

definition a11y_issue :: "str \<Rightarrow> nat option \<Rightarrow> str \<Rightarrow> str \<Rightarrow> AccessibilityIssue" where
  "a11y_issue sev cnt msg wcag =
     \<lparr>a11y_severity = sev, a11y_message = Some msg, a11y_count = cnt, a11y_wcag = Some wcag\<rparr>"

definition accessibility_issues :: "str \<Rightarrow> AccessibilityIssue list" where
  "accessibility_issues html =
     (let imgWithoutAlt = length (js_match_g html rx_img_without_alt);
          hasLang = js_test rx_html_lang html;
          buttonWithoutText = length (js_match_g html rx_empty_button);
          inputCount = length (js_match_g html (rx_tag ''input''));
          labelCount = length (js_match_g html (rx_tag ''label''));
          headingsMatch = js_match_g html rx_heading;
          h1Count = length (js_match_g html (rx_tag ''h1''));
          linksWithoutText = length (js_match_g html rx_empty_link);
          hasSkipLink = js_test rx_skip_link html;
          tabindexNegative = length (js_match_g html rx_tabindex_negative)
      in
      (if imgWithoutAlt > 0
       then [a11y_issue (u ''critical'') (Some imgWithoutAlt)
               (show_nat imgWithoutAlt @
                (u '' images missing alt text - screen readers cannot describe images''))
               (u ''WCAG 2.1 Level A (1.1.1)'')]
       else []) @
      (if \<not> hasLang
       then [a11y_issue (u ''high'') None
               (u ''Missing lang attribute on html element - affects screen reader pronunciation'')
               (u ''WCAG 2.1 Level A (3.1.1)'')]
       else []) @
      (if buttonWithoutText > 0
       then [a11y_issue (u ''critical'') (Some buttonWithoutText)
               (show_nat buttonWithoutText @
                (u '' buttons without accessible text - screen readers cannot announce purpose''))
               (u ''WCAG 2.1 Level A (4.1.2)'')]
       else []) @
      (if inputCount > labelCount + 2
       then [a11y_issue (u ''high'') (Some (inputCount - labelCount))
               (show_nat (inputCount - labelCount) @
                (u '' form inputs possibly without labels - difficult for screen reader users''))
               (u ''WCAG 2.1 Level A (1.3.1, 3.3.2)'')]
       else []) @
      (if h1Count = 0 \<and> length headingsMatch > 0
       then [a11y_issue (u ''medium'') None
               (u ''Page has no H1 heading - impacts document structure and navigation'')
               (u ''WCAG 2.1 Level A (1.3.1)'')]
       else if h1Count > 1
       then [a11y_issue (u ''medium'') None
               ((u ''Page has '') @ show_nat h1Count @
                (u '' H1 headings - should typically have only one''))
               (u ''WCAG 2.1 Best Practice'')]
       else []) @
      (if linksWithoutText > 0
       then [a11y_issue (u ''high'') (Some linksWithoutText)
               (show_nat linksWithoutText @
                (u '' links without text - screen readers cannot announce destination''))
               (u ''WCAG 2.1 Level A (2.4.4)'')]
       else []) @
      (if \<not> hasSkipLink
       then [a11y_issue (u ''low'') None
               (u ''No skip navigation link found - keyboard users must tab through all navigation'')
               (u ''WCAG 2.1 Level A (2.4.1)'')]
       else []) @
      (if tabindexNegative > 0
       then [a11y_issue (u ''medium'') (Some tabindexNegative)
               (show_nat tabindexNegative @
                (u '' elements with negative tabindex - removes from keyboard navigation''))
               (u ''WCAG 2.1 Level A (2.1.1)'')]
       else []))"

text \<open>\<^verbatim>\<open>severityPoints[issue.severity] || 10\<close>\<close>

definition severityPoints :: "str \<Rightarrow> int" where
  "severityPoints sev =
     (case map_of [((u ''critical''), 25), ((u ''high''), 15), ((u ''medium''), 8), ((u ''low''), 3)] sev of
        Some n \<Rightarrow> n | None \<Rightarrow> 10)"

definition performAccessibilityScan :: "str \<Rightarrow> fetched \<Rightarrow> AccessibilityResults PipelineSection" where
  "performAccessibilityScan url f =
     (case f of
        Inr r \<Rightarrow>
          (let issues = accessibility_issues (body r);
               totalDeduction = sum_list (map (\<lambda>i. severityPoints (a11y_severity i)) issues)
           in
           \<lparr>payload = Some
              \<lparr>a11y_issues = issues, total_issues = length issues,
               a11y_score = max 0 (100 - totalDeduction),
               wcag_level =
                 Some (if list_ex (\<lambda>i. a11y_severity i = (u ''critical'') \<or> a11y_severity i = (u ''high''))
                            issues
                       then (u ''Fails Level A'') else (u ''Passes Level A (potential AA issues)''))\<rparr>,
            status = Some Completed, error = None\<rparr>)
      | Inl e \<Rightarrow>
          \<lparr>payload = Some \<lparr>a11y_issues = [], total_issues = 0, a11y_score = 0,
                            wcag_level = Some (u ''Unable to determine'')\<rparr>,
           status = Some Failed, error = Some (message_or e (u ''Accessibility scan failed''))\<rparr>)"

section \<open>Performance analyzer\<close>

text \<open>\<^verbatim>\<open>/<link[^>]*rel=["']stylesheet["'][^>]*>/gi\<close>\<close>

definition rx_stylesheet :: rx where
  "rx_stylesheet = seqs [liti ''<link'', Star (none_of ''>''), liti ''rel='', quote,
                         liti ''stylesheet'', quote, Star (none_of ''>''), lit ''>'']"

text \<open>
  \<^verbatim>\<open>performBasicPerformanceScan\<close>. The elapsed time between the two readings of
  \<^verbatim>\<open>performance.now()\<close> is an input. The function has no handler of its own: a failed
  fetch throws to the caller.
\<close>

definition performBasicPerformanceScan ::
  "rat \<Rightarrow> fetched \<Rightarrow> thrown + PerformanceResults PipelineSection" where
  "performBasicPerformanceScan loadTime f =
     (case f of
        Inl e \<Rightarrow> Inl e
      | Inr r \<Rightarrow>
          (let html = body r;
               imageCount = length (js_match_g html (rx_tag ''img''));
               scriptCount = length (js_match_g html (rx_tag ''script''));
               stylesheetCount = length (js_match_g html rx_stylesheet);
               hasGzip = (case headers r (u ''content-encoding'') of
                            None \<Rightarrow> None
                          | Some v \<Rightarrow> Some (js_includes v (u ''gzip'') \<or> js_includes v (u ''br'')));
               hasCaching = \<not> header_missing r (u ''cache-control'');
               score = (100::int);
               score = (if loadTime > 3000 then score - 30
                        else if loadTime > 1500 then score - 15 else score);
               score = (if imageCount > 20 then score - 10 else score);
               score = (if scriptCount > 15 then score - 10 else score);
               score = (if stylesheetCount > 5 then score - 5 else score);
               score = (if hasGzip \<noteq> Some True then score - 15 else score);
               score = (if \<not> hasCaching then score - 10 else score);
               score = max 0 score
           in Inr
             \<lparr>payload = Some
                \<lparr>perf_score = score, load_time_ms = js_round loadTime,
                 image_count = Some imageCount, scripts_count = Some scriptCount,
                 stylesheets_count = Some stylesheetCount,
                 compression_enabled = hasGzip, caching_enabled = Some hasCaching,
                 lighthouse_scores = Some \<lparr>lh_performance = Some score,
                                             lh_seo = Some (max 0 (score - 10)),
                                             lh_accessibility = None, lh_bestPractices = None\<rparr>,
                 core_web_vitals = None, source = Some (u ''basic-scan''),
                 opportunities = None, diagnostics = None\<rparr>,
              status = Some Completed, error = None\<rparr>))"

text \<open>
  The reply of the PageSpeed service, as far as \<^verbatim>\<open>performGooglePageSpeedScan\<close> reads it.
  An absent or \<^verbatim>\<open>null\<close> JSON member is \<open>None\<close>.
\<close>

record PageSpeedAudit =
  audit_title :: "str option"
  audit_description :: "str option"
  audit_score :: "rat option"
  overallSavingsMs :: "rat option"

record PageSpeedData =
  category_performance :: "rat option"
  category_accessibility :: "rat option"
  category_best_practices :: "rat option"
  category_seo :: "rat option"
  firstContentfulPaint :: "rat option"
  largestContentfulPaint :: "rat option"
  interactive :: "rat option"
  totalBlockingTime :: "rat option"
  cumulativeLayoutShift :: "rat option"
  metric_speedIndex :: "rat option"
  observedLoad :: "rat option"
  optimized_images_items :: "nat option"
  audits :: "str \<rightharpoonup> PageSpeedAudit"

text \<open>\<^verbatim>\<open>x || 0\<close> on a number that may be absent.\<close>

definition or0 :: "rat option \<Rightarrow> rat" where
  "or0 x = (case x of None \<Rightarrow> 0 | Some v \<Rightarrow> v)"

definition audit_entries :: "(str \<rightharpoonup> PageSpeedAudit) \<Rightarrow> bool \<Rightarrow> str list \<Rightarrow> Opportunity list" where
  "audit_entries as with_savings ids =
     concat (map (\<lambda>auditId.
        case as auditId of
          None \<Rightarrow> []
        | Some audit \<Rightarrow>
            (case audit_score audit of
               None \<Rightarrow> []
             | Some sc \<Rightarrow>
                 if sc < 1
                 then [\<lparr>opp_title = (case audit_title audit of
                                        None \<Rightarrow> auditId
                                      | Some t \<Rightarrow> if t = [] then auditId else t),
                         opp_description = audit_description audit,
                         opp_score = sc,
                         opp_savings = (if with_savings then Some (or0 (overallSavingsMs audit))
                                        else None)\<rparr>]
                 else [])) ids)"

definition extractPageSpeedOpportunities :: "(str \<rightharpoonup> PageSpeedAudit) \<Rightarrow> Opportunity list" where
  "extractPageSpeedOpportunities as =
     take 5 (audit_entries as True
       [(u ''render-blocking-resources''), (u ''unused-css-rules''), (u ''unused-javascript''),
        (u ''modern-image-formats''), (u ''offscreen-images''), (u ''minify-css''), (u ''minify-javascript''),
        (u ''reduce-unused-code'')])"

definition extractPageSpeedDiagnostics :: "(str \<rightharpoonup> PageSpeedAudit) \<Rightarrow> Opportunity list" where
  "extractPageSpeedDiagnostics as =
     take 5 (audit_entries as False
       [(u ''dom-size''), (u ''total-byte-weight''), (u ''mainthread-work-breakdown''), (u ''bootup-time''),
        (u ''duplicated-javascript'')])"

text \<open>
  \<^verbatim>\<open>performGooglePageSpeedScan\<close>: the service call throws (network error, a status that
  is not ok, a reply of another shape) or yields the reply; on a throw the basic scan runs.
\<close>

definition performGooglePageSpeedScan ::
  "thrown + PageSpeedData \<Rightarrow> rat \<Rightarrow> fetched \<Rightarrow> thrown + PerformanceResults PipelineSection" where
  "performGooglePageSpeedScan reply loadTime f =
     (case reply of
        Inl e \<Rightarrow> performBasicPerformanceScan loadTime f
      | Inr d \<Rightarrow>
          (let performanceScore = js_round (or0 (category_performance d) * 100);
               accessibilityScore = js_round (or0 (category_accessibility d) * 100);
               bestPracticesScore = js_round (or0 (category_best_practices d) * 100);
               seoScore = js_round (or0 (category_seo d) * 100)
           in Inr
             \<lparr>payload = Some
                \<lparr>perf_score = performanceScore,
                 load_time_ms = js_round (or0 (observedLoad d)),
                 image_count = Some (case optimized_images_items d of None \<Rightarrow> 0 | Some n \<Rightarrow> n),
                 scripts_count = None, stylesheets_count = None,
                 compression_enabled =
                   Some (case audits d (u ''uses-text-compression'') of
                           None \<Rightarrow> False | Some a \<Rightarrow> audit_score a = Some 1),
                 caching_enabled =
                   Some (case audits d (u ''uses-long-cache-ttl'') of
                           None \<Rightarrow> False
                         | Some a \<Rightarrow> (case audit_score a of None \<Rightarrow> False | Some sc \<Rightarrow> sc > 1 / 2)),
                 lighthouse_scores = Some \<lparr>lh_performance = Some performanceScore,
                                             lh_seo = Some seoScore,
                                             lh_accessibility = Some accessibilityScore,
                                             lh_bestPractices = Some bestPracticesScore\<rparr>,
                 core_web_vitals = Some
                   \<lparr>fcp = of_int (js_round (or0 (firstContentfulPaint d))),
                    lcp = of_int (js_round (or0 (largestContentfulPaint d))),
                    tti = of_int (js_round (or0 (interactive d))),
                    tbt = of_int (js_round (or0 (totalBlockingTime d))),
                    cls = of_int (js_round (or0 (cumulativeLayoutShift d) * 1000)) / 1000,
                    speedIndex = of_int (js_round (or0 (metric_speedIndex d)))\<rparr>,
                 source = Some (u ''google-pagespeed''),
                 opportunities = Some (extractPageSpeedOpportunities (audits d)),
                 diagnostics = Some (extractPageSpeedDiagnostics (audits d))\<rparr>,
              status = Some Completed, error = None\<rparr>))"

text \<open>
  \<^verbatim>\<open>performPerformanceScan\<close>: \<open>pagespeed\<close> is \<open>None\<close> when no API key is configured.
\<close>

definition performPerformanceScan ::
  "(thrown + PageSpeedData) option \<Rightarrow> rat \<Rightarrow> fetched \<Rightarrow> PerformanceResults PipelineSection" where
  "performPerformanceScan pagespeed loadTime f =
     (case (case pagespeed of
              Some reply \<Rightarrow> performGooglePageSpeedScan reply loadTime f
            | None \<Rightarrow> performBasicPerformanceScan loadTime f) of
        Inr res \<Rightarrow> res
      | Inl e \<Rightarrow>
          \<lparr>payload = Some
             \<lparr>perf_score = 0, load_time_ms = 0, image_count = None, scripts_count = None,
              stylesheets_count = None, compression_enabled = None, caching_enabled = None,
              lighthouse_scores = None, core_web_vitals = None, source = None,
              opportunities = None, diagnostics = None\<rparr>,
           status = Some Failed, error = Some (message_or e (u ''Performance scan failed''))\<rparr>)"

section \<open>Interactive-elements analyzer\<close>

text \<open>
  What the structural parse yields when a \<^verbatim>\<open>DOMParser\<close> exists: the text content of
  every \<^verbatim>\<open>button\<close>, and the numbers of \<^verbatim>\<open>a[href]\<close> and \<^verbatim>\<open>form\<close> elements. The parser is
  the platform's; it is an input of the analyzer, \<open>None\<close> when it is unavailable or throws.
\<close>

record dom_view =
  dom_buttons :: "str list"
  dom_anchors :: nat
  dom_forms :: nat

text \<open>\<^verbatim>\<open>/<button[^>]*>([\s\S]*?)<\/button>/gi\<close>\<close>

definition rx_button :: rx where
  "rx_button = seqs [liti ''<button'', Star (none_of ''>''), lit ''>'', Lazy any_char,
                     liti ''</button>'']"

text \<open>\<^verbatim>\<open>/<a[^>]*href=["']([^"']*)["'][^>]*>/gi\<close>\<close>

definition rx_link :: rx where
  "rx_link = seqs [liti ''<a'', Star (none_of ''>''), liti ''href='', quote, Star not_quote, quote,
                   Star (none_of ''>''), lit ''>'']"

text \<open>\<^verbatim>\<open>s.replace(/r/g, '')\<close> for an expression that matches no empty string.\<close>

function remove_all :: "rx \<Rightarrow> pos \<Rightarrow> str" where
  "remove_all r ps =
     (case snd ps of
        [] \<Rightarrow> []
      | c # t \<Rightarrow>
          (case ms r ps of
             [] \<Rightarrow> c # remove_all r (Some c, t)
           | q # _ \<Rightarrow> if length (snd q) < length (snd ps) then remove_all r q
                      else c # remove_all r (Some c, t)))"
  by pat_completeness auto
termination
  by (relation "measure (\<lambda>(r, ps). length (snd ps))") auto

declare remove_all.simps [simp del]

definition e2e_zero :: E2EResults where
  "e2e_zero = \<lparr>buttons_found = 0, links_found = 0, forms_found = 0, primary_actions = []\<rparr>"

definition performE2EScan ::
  "(str \<Rightarrow> dom_view option) \<Rightarrow> fetched \<Rightarrow> E2EResults PipelineSection" where
  "performE2EScan parse_dom f =
     (case f of
        Inl e \<Rightarrow>
          \<lparr>payload = Some e2e_zero, status = Some Failed,
           error = Some (message_or e (u ''E2E scan failed''))\<rparr>
      | Inr r \<Rightarrow>
          if \<not> ok r
          then \<lparr>payload = Some e2e_zero, status = Some Failed,
                error = Some ((u ''HTTP '') @ show_nat (http_status r))\<rparr>
          else
            (case parse_dom (body r) of
               Some doc \<Rightarrow>
                 \<lparr>payload = Some
                    \<lparr>buttons_found = length (dom_buttons doc), links_found = dom_anchors doc,
                     forms_found = dom_forms doc,
                     primary_actions = take 5 (filter (\<lambda>s. s \<noteq> []) (map trim (dom_buttons doc)))\<rparr>,
                  status = Some Completed, error = None\<rparr>
             | None \<Rightarrow>
                 (let html = body r;
                      buttonMatches = js_match_g html rx_button;
                      linkMatches = js_match_g html rx_link;
                      formMatches = js_match_g html (rx_tag ''form'')
                  in
                  \<lparr>payload = Some
                     \<lparr>buttons_found = length buttonMatches, links_found = length linkMatches,
                      forms_found = length formMatches,
                      primary_actions =
                        filter (\<lambda>s. s \<noteq> [])
                          (map (\<lambda>btn. trim (remove_all (rx_tag []) (None, btn)))
                               (take 5 buttonMatches))\<rparr>,
                   status = Some Completed, error = None\<rparr>)))"

section \<open>Tech-stack analyzer\<close>

definition tech :: "str \<Rightarrow> str \<Rightarrow> str option \<Rightarrow> str \<Rightarrow> Technology" where
  "tech n conf ver cat =
     \<lparr>tech_name = n, tech_confidence = conf, tech_version = ver, tech_category = cat\<rparr>"

text \<open>\<^verbatim>\<open>/class=["'][^"']*\b(a|b|...)[^"']*["']/\<close>\<close>

definition rx_class_with :: "string list \<Rightarrow> rx" where
  "rx_class_with names =
     seqs [lit ''class='', quote, Star not_quote, WordB, foldr (\<lambda>n r. Alt (lit n) r) names
             (NLook Eps), Star not_quote, quote]"

text \<open>\<^verbatim>\<open>\d+\.\d+\.\d+\<close>\<close>

definition rx_semver :: rx where
  "rx_semver = seqs [Plus digit, lit ''.'', Plus digit, lit ''.'', Plus digit]"

text \<open>\<^verbatim>\<open>server.split("/")\<close>\<close>

fun split_slash :: "str \<Rightarrow> str list" where
  "split_slash [] = [[]]"
| "split_slash (c # cs) =
     (if c = of_char CHR ''/'' then [] # split_slash cs
      else (case split_slash cs of x # xs \<Rightarrow> (c # x) # xs | [] \<Rightarrow> [[c]]))"

text \<open>A header value that is present and not empty.\<close>

definition header_value :: "response \<Rightarrow> str \<Rightarrow> str option" where
  "header_value r name = (case headers r name of None \<Rightarrow> None | Some v \<Rightarrow> if v = [] then None else Some v)"

definition detected_technologies :: "response \<Rightarrow> Technology list" where
  "detected_technologies r =
     (let html = body r in
      (if js_includes html (u ''__NEXT_DATA__'') \<or> js_includes html (u ''_next/static'')
       then [tech (u ''Next.js'') (u ''high'')
               (case js_match_group html (lit ''\"buildId\":\"'') (Plus (none_of ''\"''))
                       (lit ''\"'') of
                  Some v \<Rightarrow> Some (u ''detected'') | None \<Rightarrow> None)
               (u ''Framework'')]
       else if js_includes html (u ''react'') \<or> js_includes html (u ''React'') \<or> js_includes html (u ''_react'')
               \<or> js_test (seqs [liti ''react'', Opt (one_of ''.-''), liti ''dom'']) html
       then [tech (u ''React'') (u ''medium'') None (u ''Library'')]
       else []) @
      (if js_includes html (u ''__nuxt'') \<or> js_includes html (u ''_nuxt/'')
       then [tech (u ''Nuxt.js'') (u ''high'') None (u ''Framework'')]
       else if js_includes html (u ''vue'') \<or> js_includes html (u ''Vue'')
               \<or> js_test (seqs [liti ''vue'', Opt (one_of ''.-''), liti ''js'']) html
       then [tech (u ''Vue.js'') (u ''medium'') None (u ''Framework'')]
       else []) @
      (if js_includes html (u ''ng-version'')
          \<or> js_test (seqs [lit ''<'', Star (none_of ''>''), liti ''ng-'', Star (none_of ''>''),
                            lit ''>'']) html
       then [tech (u ''Angular'') (u ''high'')
               (js_match_group html (lit ''ng-version=\"'') (Plus (none_of ''\"'')) (lit ''\"''))
               (u ''Framework'')]
       else []) @
      (if js_includes html (u ''wp-content'') \<or> js_includes html (u ''wp-includes'')
          \<or> js_includes html (u ''/wordpress/'')
       then [tech (u ''WordPress'') (u ''high'')
               (js_match_group html
                  (seqs [lit ''wp-content/themes/'', Plus (none_of ''/''), lit ''/''])
                  (Plus (one_of ''0123456789.'')) Eps)
               (u ''CMS'')]
       else []) @
      (if js_includes html (u ''Drupal'')
          \<or> js_test (seqs [liti ''sites/'', Alt (liti ''default'') (liti ''all''),
                            liti ''/modules'']) html
       then [tech (u ''Drupal'') (u ''high'') None (u ''CMS'')]
       else []) @
      (if js_includes html (u ''__svelte'')
          \<or> js_test (seqs [liti ''<script'', Star (none_of ''>''), liti ''src='', quote,
                            Star not_quote, liti ''svelte'', Star not_quote, quote]) html
       then [tech (u ''Svelte'') (u ''medium'') None (u ''Framework'')]
       else []) @
      (if js_test (seqs [liti ''jquery'', Opt (one_of ''.-''), Opt rx_semver]) html
       then [tech (u ''jQuery'') (u ''high'')
               (js_match_group html (seqs [liti ''jquery'', Opt (one_of ''.-'')]) rx_semver Eps)
               (u ''Library'')]
       else []) @
      (if js_includes html (u ''tailwind'')
          \<or> js_test (rx_class_with [''flex'', ''grid'', ''bg-'', ''text-'', ''p-'', ''m-'', ''w-'',
                                      ''h-'']) html
       then [tech (u ''Tailwind CSS'') (u ''medium'') None (u ''CSS Framework'')]
       else []) @
      (if js_test (rx_class_with [''container'', ''row'', ''col-'', ''btn'', ''navbar'']) html
          \<and> \<not> js_includes html (u ''tailwind'')
       then [tech (u ''Bootstrap'') (u ''low'') None (u ''CSS Framework'')]
       else []) @
      (case header_value r (u ''x-powered-by'') of
         Some poweredBy \<Rightarrow> [tech poweredBy (u ''high'') None (u ''Server'')]
       | None \<Rightarrow> []) @
      (case header_value r (u ''server'') of
         Some server \<Rightarrow>
           [tech (hd (split_slash server)) (u ''high'')
              (case split_slash server of _ # v # _ \<Rightarrow> Some v | _ \<Rightarrow> None)
              (u ''Web Server'')]
       | None \<Rightarrow> []) @
      (if header_value r (u ''x-aspnet-version'') \<noteq> None \<or> header_value r (u ''x-aspnetmvc-version'') \<noteq> None
       then [tech (u ''ASP.NET'') (u ''high'') (header_value r (u ''x-aspnet-version'')) (u ''Framework'')]
       else []))"

definition detectTechStack :: "str \<Rightarrow> fetched \<Rightarrow> TechStackResult PipelineSection" where
  "detectTechStack url f =
     (case f of
        Inr r \<Rightarrow>
          (let detected = detected_technologies r in
           \<lparr>payload = Some \<lparr>detected = detected, total_detected = length detected\<rparr>,
            status = Some Completed, error = None\<rparr>)
      | Inl e \<Rightarrow>
          \<lparr>payload = Some \<lparr>detected = [], total_detected = 0\<rparr>,
           status = Some Failed, error = Some (message_or e (u ''Tech detection failed''))\<rparr>)"

section \<open>Running the analyzers\<close>

text \<open>
  Everything \<^verbatim>\<open>performScan\<close> obtains from outside: the outcome of each analyzer's own
  fetch of the page, the structural parser, the reply of the performance service
  (\<open>None\<close> without an API key) and the measured load time.
\<close>

record scan_env =
  fetch_e2e :: fetched
  fetch_api :: fetched
  fetch_security :: fetched
  fetch_performance :: fetched
  fetch_accessibility :: fetched
  fetch_techStack :: fetched
  parse_dom :: "str \<Rightarrow> dom_view option"
  pagespeed :: "(thrown + PageSpeedData) option"
  loadTime :: rat

text \<open>
  \<^verbatim>\<open>performScan\<close> wraps each call in \<^verbatim>\<open>try\<close>/\<^verbatim>\<open>catch\<close>; each analyzer returns a
  section on every path, so the outer handlers, which would store
  \<^verbatim>\<open>{ error, status: 'failed' }\<close>, are never entered.
\<close>

definition performScan :: "str \<Rightarrow> scan_env \<Rightarrow> PipelineResults" where
  "performScan url env =
     \<lparr>e2e = Some (performE2EScan (parse_dom env) (fetch_e2e env)),
      api = Some (performAPIScan url (fetch_api env)),
      security = Some (performSecurityScan url (fetch_security env)),
      performance = Some (performPerformanceScan (pagespeed env) (loadTime env)
                            (fetch_performance env)),
      accessibility = Some (performAccessibilityScan url (fetch_accessibility env)),
      techStack = Some (detectTechStack url (fetch_techStack env))\<rparr>"

section \<open>Aggregator\<close>

text \<open>\<^verbatim>\<open>s || fallback\<close> on a string that may be absent: an empty string is falsy too.\<close>

definition str_or :: "str option \<Rightarrow> str \<Rightarrow> str" where
  "str_or x fallback = (case x of None \<Rightarrow> fallback | Some v \<Rightarrow> if v = [] then fallback else v)"

text \<open>
  \<^verbatim>\<open>sortOrder[severity] || 99\<close> with
  \<^verbatim>\<open>sortOrder = { critical: 0, high: 1, medium: 2, low: 3 }\<close>: the entry of
  \<^verbatim>\<open>critical\<close> is \<open>0\<close>, which is falsy, so its key is \<open>99\<close> as for an unknown severity.
\<close>

definition sortOrder :: "str \<rightharpoonup> int" where
  "sortOrder = map_of [((u ''critical''), 0), ((u ''high''), 1), ((u ''medium''), 2), ((u ''low''), 3)]"

definition sort_rank :: "TopIssue \<Rightarrow> int" where
  "sort_rank i = (case sortOrder (severity i) of
                    None \<Rightarrow> 99 | Some n \<Rightarrow> if n = 0 then 99 else n)"

definition poor_performance_issue :: "int \<Rightarrow> TopIssue" where
  "poor_performance_issue sc =
     \<lparr>category = (u ''Performance''), severity = (u ''high''),
      description = (u ''Poor performance score ('') @ show_int sc @ (u ''/100) - site loads slowly'')\<rparr>"

text \<open>
  The issues in the order \<^verbatim>\<open>extractTopIssues\<close> pushes them, before sorting.
  \<^verbatim>\<open>Array.prototype.sort\<close> is stable, as \<open>sort_key\<close> is.
\<close>

definition collected_issues :: "PipelineResults \<Rightarrow> TopIssue list" where
  "collected_issues scanResults =
     (case field_of sec_issues (security scanResults) of
        Some issues \<Rightarrow>
          map (\<lambda>issue. \<lparr>category = str_or (sec_category issue) (u ''Security''),
                         severity = str_or (Some (sec_severity issue)) (u ''low''),
                         description = str_or (sec_description issue)
                                         (str_or (sec_message issue) [])\<rparr>) issues
      | None \<Rightarrow> []) @
     (case field_of a11y_issues (accessibility scanResults) of
        Some issues \<Rightarrow>
          map (\<lambda>issue. \<lparr>category = (u ''Accessibility''),
                         severity = str_or (Some (a11y_severity issue)) (u ''low''),
                         description = str_or (a11y_message issue) []\<rparr>) issues
      | None \<Rightarrow> []) @
     (case field_of perf_score (performance scanResults) of
        Some sc \<Rightarrow> if sc < 50 then [poor_performance_issue sc] else []
      | None \<Rightarrow> [])"

definition extractTopIssues :: "PipelineResults \<Rightarrow> TopIssue list" where
  "extractTopIssues scanResults = take 10 (sort_key sort_rank (collected_issues scanResults))"

text \<open>\<^verbatim>\<open>n || d\<close> on an integer that may be absent: \<open>0\<close> is falsy.\<close>

definition int_or :: "int option \<Rightarrow> int \<Rightarrow> int" where
  "int_or x d = (case x of None \<Rightarrow> d | Some v \<Rightarrow> if v = 0 then d else v)"

definition weight_security :: rat where "weight_security = 3 / 10"
definition weight_performance :: rat where "weight_performance = 1 / 4"
definition weight_accessibility :: rat where "weight_accessibility = 1 / 4"
definition weight_e2e :: rat where "weight_e2e = 1 / 10"
definition weight_api :: rat where "weight_api = 1 / 10"

text \<open>
  \<^verbatim>\<open>calculateOverallScore\<close>: the pair is \<^verbatim>\<open>(totalScore, totalWeight)\<close>, updated by each
  of the five \<^verbatim>\<open>if\<close> statements in turn.
\<close>

definition add_security :: "PipelineResults \<Rightarrow> rat \<times> rat \<Rightarrow> rat \<times> rat" where
  "add_security scanResults acc =
     (if status_of (security scanResults) = Some Completed
      then (let secScore =
                  of_int (int_or (field_of checks_passed (security scanResults)) 0) /
                  of_int (int_or (field_of checks_performed (security scanResults)) 1) * 100
            in (fst acc + secScore * weight_security, snd acc + weight_security))
      else acc)"

definition add_performance :: "PipelineResults \<Rightarrow> rat \<times> rat \<Rightarrow> rat \<times> rat" where
  "add_performance scanResults acc =
     (if status_of (performance scanResults) = Some Completed
      then (fst acc + of_int (int_or (field_of perf_score (performance scanResults)) 0)
                        * weight_performance,
            snd acc + weight_performance)
      else acc)"

definition add_accessibility :: "PipelineResults \<Rightarrow> rat \<times> rat \<Rightarrow> rat \<times> rat" where
  "add_accessibility scanResults acc =
     (if status_of (accessibility scanResults) = Some Completed
      then (fst acc + of_int (int_or (field_of a11y_score (accessibility scanResults)) 0)
                        * weight_accessibility,
            snd acc + weight_accessibility)
      else acc)"

definition add_e2e :: "PipelineResults \<Rightarrow> rat \<times> rat \<Rightarrow> rat \<times> rat" where
  "add_e2e scanResults acc =
     (if status_of (e2e scanResults) = Some Completed
      then (let e2eScore = (if (case field_of buttons_found (e2e scanResults) of
                                  None \<Rightarrow> 0 | Some n \<Rightarrow> n) > 0
                            then 80 else 50)
            in (fst acc + e2eScore * weight_e2e, snd acc + weight_e2e))
      else acc)"

definition add_api :: "PipelineResults \<Rightarrow> rat \<times> rat \<Rightarrow> rat \<times> rat" where
  "add_api scanResults acc =
     (if status_of (api scanResults) = Some Completed
      then (let apiScore = 70 in (fst acc + apiScore * weight_api, snd acc + weight_api))
      else acc)"

definition calculateOverallScore :: "PipelineResults \<Rightarrow> int" where
  "calculateOverallScore scanResults =
     (let (totalScore, totalWeight) =
            add_api scanResults (add_e2e scanResults (add_accessibility scanResults
              (add_performance scanResults (add_security scanResults (0, 0)))))
      in if totalWeight > 0 then js_round (totalScore / totalWeight) else 0)"

section \<open>Report generator\<close>

text \<open>
  A page is the list of its draw calls in order: \<open>DrawText text x y size\<close> and
  \<open>DrawRectangle x y width height\<close>. Colours and border widths take no part in the
  layout and are left out. The page is 595 by 842 units.
\<close>

datatype draw = DrawText str rat rat rat | DrawRectangle rat rat rat rat

type_synonym page = "draw list"

definition pageWidth :: rat where "pageWidth = 595"
definition pageHeight :: rat where "pageHeight = 842"

fun split_on :: "int \<Rightarrow> str \<Rightarrow> str list" where
  "split_on d [] = [[]]"
| "split_on d (c # cs) =
     (if c = d then [] # split_on d cs
      else (case split_on d cs of x # xs \<Rightarrow> (c # x) # xs | [] \<Rightarrow> [[c]]))"

fun join :: "str \<Rightarrow> str list \<Rightarrow> str" where
  "join sep [] = []"
| "join sep [x] = x"
| "join sep (x # y # zs) = x @ sep @ join sep (y # zs)"


text \<open>
  \<^verbatim>\<open>x.toFixed(d)\<close> of a number that is not negative: the nearest decimal with \<open>d\<close>
  digits after the point, the larger one of two that are equally near.
\<close>

definition pad_left :: "nat \<Rightarrow> str \<Rightarrow> str" where
  "pad_left n s = replicate (n - length s) (of_char CHR ''0'') @ s"

definition toFixed :: "nat \<Rightarrow> rat \<Rightarrow> str" where
  "toFixed d x =
     (let n = nat (js_round (x * 10 ^ d)) in
      show_nat (n div 10 ^ d) @ (if d = 0 then [] else u ''.'' @ pad_left d (show_nat (n mod 10 ^ d))))"

text \<open>\<^verbatim>\<open>wrapText\<close>: the state of the loop is the lines pushed so far and the current line.\<close>

definition wrap_step :: "rat \<Rightarrow> rat \<Rightarrow> str list \<times> str \<Rightarrow> str \<Rightarrow> str list \<times> str" where
  "wrap_step maxWidth fontSize st word =
     (let currentLine = snd st;
          testLine = currentLine @ (if currentLine \<noteq> [] then (u '' '') else []) @ word
      in if of_nat (length testLine) * (fontSize * (6 / 10)) > maxWidth \<and> currentLine \<noteq> []
         then (fst st @ [currentLine], word)
         else (fst st, testLine))"

definition wrapText :: "str \<Rightarrow> rat \<Rightarrow> rat \<Rightarrow> str list" where
  "wrapText text maxWidth fontSize =
     (if text = [] then []
      else (let st = foldl (wrap_step maxWidth fontSize) ([], []) (split_on (of_char CHR '' '') text)
            in fst st @ (if snd st \<noteq> [] then [snd st] else [])))"

text \<open>
  \<^verbatim>\<open>drawPageHeader\<close>: the header band, the brand mark, the title and the page number,
  then the footer rule, the footer mark and the caption. (In the source text the call
  that draws the header band lacks its closing bracket; it is read as the complete call.)
\<close>

definition drawPageHeader :: "str \<Rightarrow> nat \<Rightarrow> draw list" where
  "drawPageHeader title pageNum =
     [DrawRectangle 0 (pageHeight - 80) pageWidth 80,
      DrawText (u ''RoboLab(R)'') 40 (pageHeight - 42) 20,
      DrawText title 260 (pageHeight - 40) 14,
      DrawText ((u ''Page '') @ show_nat pageNum) (pageWidth - 80) (pageHeight - 40) 10,
      DrawRectangle 0 50 pageWidth (1 / 2),
      DrawText (u ''RoboLab(R)'') 40 30 11,
      DrawText (u ''Robo-Lab Web Scanner - Professional Security & Performance Analysis'') 250 30 8]"

text \<open>
  A \<^verbatim>\<open>for\<close> loop over rows: it stops at the first row for which \<open>stop y\<close> holds,
  otherwise draws the row at \<open>y\<close> and moves the cursor down by \<open>step\<close>. The result is the
  draw calls and the final cursor.
\<close>

fun draw_rows ::
  "(rat \<Rightarrow> bool) \<Rightarrow> ('a \<Rightarrow> rat \<Rightarrow> draw list) \<Rightarrow> rat \<Rightarrow> 'a list \<Rightarrow> rat \<Rightarrow> draw list \<times> rat" where
  "draw_rows stop f step [] y = ([], y)"
| "draw_rows stop f step (x # xs) y =
     (if stop y then ([], y)
      else (let rest = draw_rows stop f step xs (y - step) in (f x y @ fst rest, snd rest)))"

text \<open>The values \<^verbatim>\<open>processScan\<close> derives from the analyzer results.\<close>

definition performanceScore :: "PipelineResults \<Rightarrow> int" where
  "performanceScore r =
     int_or (field_of perf_score (performance r))
       (int_or (case field_of lighthouse_scores (performance r) of
                  Some (Some lh) \<Rightarrow> lh_performance lh | _ \<Rightarrow> None) 0)"

definition seoScore :: "PipelineResults \<Rightarrow> int" where
  "seoScore r =
     int_or (case field_of lighthouse_scores (performance r) of
               Some (Some lh) \<Rightarrow> lh_seo lh | _ \<Rightarrow> None) 0"

definition accessibilityIssueCount :: "PipelineResults \<Rightarrow> nat" where
  "accessibilityIssueCount r =
     (case field_of total_issues (accessibility r) of Some n \<Rightarrow> n | None \<Rightarrow> 0)"

definition securityIssues :: "PipelineResults \<Rightarrow> SecurityIssue list" where
  "securityIssues r = (case field_of sec_issues (security r) of Some issues \<Rightarrow> issues | None \<Rightarrow> [])"

definition securityChecksPassed :: "PipelineResults \<Rightarrow> int" where
  "securityChecksPassed r = max 0 (7 - int (length (securityIssues r)))"

definition technologies :: "PipelineResults \<Rightarrow> str list" where
  "technologies r =
     (case field_of detected (techStack r) of Some ts \<Rightarrow> map tech_name ts | None \<Rightarrow> [])"

definition exposedEndpoints :: "PipelineResults \<Rightarrow> str list" where
  "exposedEndpoints r =
     (case field_of endpoints (api r) of Some es \<Rightarrow> map ep_path es | None \<Rightarrow> [])"

text \<open>\<^verbatim>\<open>scanResults.e2e?.field || 0\<close>\<close>

definition e2e_count :: "(E2EResults \<Rightarrow> nat) \<Rightarrow> PipelineResults \<Rightarrow> nat" where
  "e2e_count f r = (case field_of f (e2e r) of Some n \<Rightarrow> n | None \<Rightarrow> 0)"

text \<open>Page 1, the executive summary. It has no header block.\<close>

definition page1 :: "str \<Rightarrow> str \<Rightarrow> int \<Rightarrow> PipelineResults \<Rightarrow> page" where
  "page1 url scanDate score r =
     (let y = pageHeight - 110;
          urlDisplay = (if length url > 70 then take 67 url @ (u ''...'') else url);
          top =
            [DrawText (u ''Web Scanner Full Report'') 40 (pageHeight - 50) 28,
             DrawText (u ''Comprehensive Security & Performance Analysis'') 40 (pageHeight - 75) 12,
             DrawRectangle 40 (y - 50) 515 50,
             DrawText (u ''URL Analyzed:'') 60 (y - 20) 10,
             DrawText urlDisplay 60 (y - 35) 9];
          y = y - 50;
          date = [DrawText ((u ''Scan Date: '') @ scanDate) 40 y 9];
          y = y - 25;
          statusText = (if score \<ge> 80 then (u ''Excellent'') else if score \<ge> 60 then (u ''Good'')
                        else if score \<ge> 40 then (u ''Fair'') else (u ''Poor''));
          overall =
            [DrawRectangle 40 (y - 80) 515 80,
             DrawText (u ''OVERALL SCORE'') 60 (y - 30) 11,
             DrawText (show_int score) 380 (y - 60) 48,
             DrawText (u ''/100'') 450 (y - 52) 14,
             DrawText statusText 60 (y - 60) 14];
          y = y - 110;
          quick = [DrawText (u ''Quick Metrics'') 40 y 12];
          y = y - 20;
          metrics =
            [((u ''Performance Score''), show_int (performanceScore r) @ (u ''/100'')),
             ((u ''SEO Score''), show_int (seoScore r) @ (u ''/100'')),
             ((u ''Security Checks''), show_int (securityChecksPassed r) @ (u ''/7 passed'')),
             ((u ''Accessibility Issues''), show_nat (accessibilityIssueCount r))]
      in top @ date @ overall @ quick @
         fst (draw_rows (\<lambda>y. False)
                (\<lambda>m y. [DrawRectangle 40 (y - 20) 515 20,
                         DrawText (fst m) 60 (y - 12) 9,
                         DrawText (snd m) 400 (y - 12) 9])
                25 metrics y))"

text \<open>
  Page 2, the metrics overview. The loop over the cards carries \<^verbatim>\<open>cardX\<close>,
  \<^verbatim>\<open>cardY\<close> and \<^verbatim>\<open>cardCol\<close>; the result is the draw calls and the final \<^verbatim>\<open>cardY\<close>.
\<close>

fun draw_cards :: "(str \<times> str \<times> str) list \<Rightarrow> rat \<Rightarrow> rat \<Rightarrow> nat \<Rightarrow> draw list \<times> rat" where
  "draw_cards [] cardX cardY cardCol = ([], cardY)"
| "draw_cards (metric # rest_cards) cardX cardY cardCol =
     (let wrapped = cardCol > 4;
          cardCol = (if wrapped then 0 else cardCol);
          cardX = (if wrapped then 40 else cardX);
          cardY = (if wrapped then cardY - 95 else cardY);
          rest = draw_cards rest_cards (cardX + 103) cardY (cardCol + 1)
      in ([DrawRectangle cardX (cardY - 85) 98 85,
           DrawText (fst (snd metric)) (cardX + 5) (cardY - 35) 18,
           DrawText (fst metric) (cardX + 5) (cardY - 52) 8,
           DrawText (snd (snd metric)) (cardX + 5) (cardY - 65) 7] @ fst rest,
          snd rest))"

definition page2 :: "PipelineResults \<Rightarrow> nat \<Rightarrow> page" where
  "page2 r pageNum =
     (let y = pageHeight - 100;
          title = [DrawText (u ''Website Performance Metrics'') 40 y 12];
          y = y - 28;
          metricCards =
            [((u ''Performance Score''), show_int (performanceScore r), (u ''Lighthouse Mobile Score'')),
             ((u ''SEO Score''), show_int (seoScore r), (u ''Overall SEO Score'')),
             ((u ''Accessibility''), show_nat (accessibilityIssueCount r),
              (u ''Critical & Serious Issues'')),
             ((u ''Security''),
              show_int (int_or (field_of checks_passed (security r)) 0),
              (u ''Security Checks Passed'')),
             ((u ''E2E Testing''),
              show_nat (e2e_count buttons_found r + e2e_count links_found r
                        + e2e_count forms_found r),
              (u ''Interactive Elements Total''))];
          cards = draw_cards metricCards 40 y 0;
          y = snd cards - 120;
          expText = (u ''Performance: Load speed & responsiveness | SEO: Search engine visibility | Accessibility: Usability for all users | Security: Protection level | E2E: Interactive elements'');
          expLines = wrapText expText 475 8
      in drawPageHeader (u ''Scan Results Overview'') pageNum @ title @ fst cards @
         [DrawRectangle 40 (y - 75) 515 70,
          DrawText (u ''What do these scores mean?'') 55 (y - 10) 12] @
         fst (draw_rows (\<lambda>y. False) (\<lambda>line expY. [DrawText line 55 expY 8]) 12
                (take 3 expLines) (y - 28)))"

text \<open>Page 3, the detailed issues.\<close>

definition page3 :: "TopIssue list \<Rightarrow> nat \<Rightarrow> page" where
  "page3 topIssues pageNum =
     (let y = pageHeight - 100 in
      drawPageHeader (u ''Detailed Scan Results'') pageNum @
      (if length topIssues > 0
       then DrawText ((u ''Top Issues Found ('') @ show_nat (length topIssues) @ (u '')'')) 40 y 12 #
            fst (draw_rows (\<lambda>y. y < 60)
                   (\<lambda>issue y.
                      (let sev = str_or (Some (severity issue)) (u ''medium'') in
                       [DrawRectangle 40 (y - 25) 515 25,
                        DrawText ((u ''['') @ map upper sev @ (u ''] '') @ category issue) 60 (y - 10) 9,
                        DrawText (take 75 (description issue)) 60 (y - 18) 8]))
                   30 (take 10 topIssues) (y - 20))
       else []))"

text \<open>Page 4, security and performance.\<close>

definition page4 :: "PipelineResults \<Rightarrow> nat \<Rightarrow> page" where
  "page4 r pageNum =
     (let y = pageHeight - 100;
          sec_title = [DrawText (u ''Security Analysis'') 40 y 12];
          y = y - 20;
          sec_box =
            [DrawRectangle 40 (y - 45) 515 45,
             DrawText ((u ''Security Checks Passed: '') @ show_int (securityChecksPassed r) @ (u ''/7''))
               60 (y - 12) 10,
             (case field_of sec_issues (security r) of
                Some (i # rest) \<Rightarrow>
                  DrawText ((u ''Issues Found: '') @ show_nat (length (i # rest))) 60 (y - 25) 9
              | _ \<Rightarrow> DrawText (u ''No major security issues detected [OK]'') 60 (y - 25) 9)];
          y = y - 70;
          perf_title = [DrawText (u ''Performance Analysis'') 40 y 12];
          y = y - 20;
          vitals =
            (case field_of core_web_vitals (performance r) of
               Some (Some cwv) \<Rightarrow>
                 draw_rows (\<lambda>y. False)
                   (\<lambda>metric y. [DrawRectangle 40 (y - 18) 515 18,
                                 DrawText (fst metric) 60 (y - 10) 8,
                                 DrawText (snd metric) 420 (y - 10) 8])
                   22
                   [((u ''FCP (First Contentful Paint)''), toFixed 2 (fcp cwv / 1000) @ (u ''s'')),
                    ((u ''LCP (Largest Contentful Paint)''), toFixed 2 (lcp cwv / 1000) @ (u ''s'')),
                    ((u ''CLS (Cumulative Layout Shift)''), toFixed 3 (cls cwv))]
                   y
             | _ \<Rightarrow> ([], y));
          y = snd vitals;
          loadTimeText =
            (case field_of load_time_ms (performance r) of
               Some t \<Rightarrow> if t = 0 then (u ''N/A'') else show_int t
             | None \<Rightarrow> (u ''N/A''))
      in drawPageHeader (u ''Security & Performance'') pageNum @ sec_title @ sec_box @ perf_title @
         fst vitals @
         [DrawText (u ''Load Time'') 40 y 10,
          DrawText (loadTimeText @ (u ''ms'')) 400 y 10,
          DrawText (u ''Page Size'') 40 (y - 18) 10,
          DrawText (u ''N/AKB'') 400 (y - 18) 10])"

text \<open>Page 5, accessibility and the detected technologies.\<close>

definition page5 :: "PipelineResults \<Rightarrow> nat \<Rightarrow> page" where
  "page5 r pageNum =
     (let y = pageHeight - 100;
          title = [DrawText (u ''Accessibility Analysis'') 40 y 12];
          y = y - 20;
          a11yScore = int_or (field_of a11y_score (accessibility r)) 0;
          box =
            [DrawRectangle 40 (y - 45) 515 45,
             DrawText ((u ''Score: '') @ show_int a11yScore @ (u ''/100'')) 60 (y - 12) 10,
             DrawText ((u ''Total Issues: '') @ show_nat (accessibilityIssueCount r)) 60 (y - 25) 9];
          y = y - 70;
          techs =
            (if length (technologies r) > 0
             then (let techLines = wrapText (join (u '' | '') (take 15 (technologies r))) 470 8;
                       h = of_nat (length techLines) * 12 + 10;
                       lines = draw_rows (\<lambda>y. False) (\<lambda>line y. [DrawText line 60 y 8]) 12
                                 techLines (y - 18)
                   in ([DrawText (u ''Detected Technologies'') 40 y 12,
                        DrawRectangle 40 (y - 18 - h) 515 h] @ fst lines, snd lines))
             else ([], y));
          y = snd techs - 20
      in drawPageHeader (u ''Accessibility & Technologies'') pageNum @ title @ box @ fst techs @
         (if e2e_count buttons_found r \<noteq> 0 \<or> e2e_count links_found r \<noteq> 0
             \<or> e2e_count forms_found r \<noteq> 0
          then [DrawText (u ''End-to-End Testing'') 40 y 12,
                DrawText ((u ''Buttons Found: '') @ show_nat (e2e_count buttons_found r)) 60 (y - 18) 9,
                DrawText ((u ''Links Found: '') @ show_nat (e2e_count links_found r)) 60 (y - 30) 9,
                DrawText ((u ''Forms Found: '') @ show_nat (e2e_count forms_found r)) 60 (y - 42) 9]
          else []))"

text \<open>Page 6, the Core Web Vitals; emitted only when the performance result carries them.\<close>

definition vitalMetrics :: "CoreWebVitals \<Rightarrow> (str \<times> str \<times> str) list" where
  "vitalMetrics cwv =
     [((u ''First Contentful Paint (FCP)''), toFixed 2 (fcp cwv / 1000) @ (u ''s''),
       (u ''How quickly content appears'')),
      ((u ''Largest Contentful Paint (LCP)''), toFixed 2 (lcp cwv / 1000) @ (u ''s''),
       (u ''Main content load time'')),
      ((u ''Cumulative Layout Shift (CLS)''), toFixed 3 (cls cwv), (u ''Visual stability score'')),
      ((u ''Total Blocking Time (TBT)''), show_int (js_round (tbt cwv)) @ (u ''ms''),
       (u ''Interactivity delay'')),
      ((u ''Time to Interactive (TTI)''), toFixed 2 (tti cwv / 1000) @ (u ''s''), (u ''When page is usable'')),
      ((u ''Speed Index''), toFixed 2 (speedIndex cwv / 1000) @ (u ''s''), (u ''Visual completion speed''))]"

definition page6 :: "CoreWebVitals \<Rightarrow> nat \<Rightarrow> page" where
  "page6 cwv pageNum =
     (let y = pageHeight - 100;
          rows = draw_rows (\<lambda>y. y < 80)
                   (\<lambda>metric y. [DrawRectangle 40 (y - 35) 515 35,
                                 DrawText (fst metric) 60 (y - 12) 9,
                                 DrawText (fst (snd metric)) 380 (y - 12) 11,
                                 DrawText (snd (snd metric)) 60 (y - 23) 8])
                   40 (vitalMetrics cwv) (y - 25);
          y' = snd rows
      in drawPageHeader (u ''Core Web Vitals'') pageNum @
         [DrawText (u ''Powered by Google PageSpeed Insights'') 40 y 11] @ fst rows @
         (if y' > 80
          then [DrawRectangle 40 (y' - 50) 515 50,
                DrawText (u ''Core Web Vitals measure real user experience: loading speed (FCP/LCP), visual stability (CLS), and interactivity (TBT/TTI).'')
                  55 (y' - 20) 8]
          else []))"

text \<open>Page 7, the category scores. \<^verbatim>\<open>lh.pwa\<close> is never set, so its row shows \<open>0\<close>.\<close>

definition page7 :: "LighthouseScores \<Rightarrow> nat \<Rightarrow> page" where
  "page7 lh pageNum =
     (let y = pageHeight - 100;
          rows = draw_rows (\<lambda>y. False)
                   (\<lambda>sc y. [DrawRectangle 40 (y - 30) 515 30,
                             DrawText (fst sc) 60 (y - 12) 10,
                             DrawText (show_int (snd sc) @ (u ''/100'')) 420 (y - 12) 14,
                             DrawRectangle 60 (y - 24) 80 4,
                             DrawRectangle 60 (y - 24) (of_int (snd sc) / 100 * 80) 4])
                   35
                   [((u ''Performance''), int_or (lh_performance lh) 0),
                    ((u ''Accessibility''), int_or (lh_accessibility lh) 0),
                    ((u ''Best Practices''), int_or (lh_bestPractices lh) 0),
                    ((u ''SEO''), int_or (lh_seo lh) 0),
                    ((u ''PWA''), 0)]
                   (y - 30);
          y' = snd rows
      in drawPageHeader (u ''Google Lighthouse Scores'') pageNum @
         [DrawText (u ''Comprehensive Lighthouse Analysis'') 40 y 12] @ fst rows @
         (if y' > 80
          then [DrawRectangle 40 (y' - 40) 515 40,
                DrawText (u ''Scores 80+: Excellent | 60-79: Good | Below 60: Needs improvement. Focus on areas with lower scores.'')
                  55 (y' - 20) 8]
          else []))"

text \<open>Page 8, the interactive elements; emitted whenever the section object exists.\<close>

definition page8 :: "PipelineResults \<Rightarrow> nat \<Rightarrow> page" where
  "page8 r pageNum =
     (let y = pageHeight - 100;
          rows = draw_rows (\<lambda>y. False)
                   (\<lambda>metric y. [DrawRectangle 40 (y - 32) 515 32,
                                 DrawText (fst metric) 60 (y - 12) 10,
                                 DrawText (fst (snd metric)) 420 (y - 12) 16,
                                 DrawText (snd (snd metric)) 60 (y - 22) 8])
                   38
                   [((u ''Buttons Found''), show_nat (e2e_count buttons_found r),
                     (u ''Interactive button elements'')),
                    ((u ''Links Found''), show_nat (e2e_count links_found r), (u ''Navigational links'')),
                    ((u ''Forms Found''), show_nat (e2e_count forms_found r), (u ''User input forms''))]
                   (y - 25);
          y' = snd rows - 15;
          actions = (case field_of primary_actions (e2e r) of Some acts \<Rightarrow> acts | None \<Rightarrow> [])
      in drawPageHeader (u ''End-to-End Testing Analysis'') pageNum @
         [DrawText (u ''Interactive Elements Detected'') 40 y 12] @ fst rows @
         (if length actions > 0
          then DrawText (u ''Primary Actions Detected'') 40 y' 11 #
               fst (draw_rows (\<lambda>y. y < 60)
                      (\<lambda>action y. [DrawRectangle 40 (y - 15) 515 15,
                                    DrawText ((u ''- '') @ take 100 action) 60 (y - 8) 8])
                      18 (take 8 actions) (y' - 18))
          else []))"

text \<open>
  Page 9, the full technology list. The loop carries \<^verbatim>\<open>col\<close>, \<^verbatim>\<open>xPos\<close> and
  \<^verbatim>\<open>currentY\<close>; the result is the draw calls and the final \<^verbatim>\<open>currentY\<close>.
\<close>

fun draw_techs :: "str list \<Rightarrow> nat \<Rightarrow> rat \<Rightarrow> rat \<Rightarrow> draw list \<times> rat" where
  "draw_techs [] col xPos currentY = ([], currentY)"
| "draw_techs (t # ts) col xPos currentY =
     (let wrapped = col > 1;
          col = (if wrapped then 0 else col);
          currentY = (if wrapped then currentY - 35 else currentY);
          xPos = (if wrapped then 40 else xPos)
      in if currentY < 80 then ([], currentY)
         else (let rest = draw_techs ts (col + 1) (xPos + 260) currentY
               in ([DrawRectangle xPos (currentY - 28) 240 28,
                    DrawText ((u ''- '') @ t) (xPos + 10) (currentY - 15) 9] @ fst rest,
                   snd rest)))"

definition page9 :: "str list \<Rightarrow> nat \<Rightarrow> page" where
  "page9 techs pageNum =
     (let y = pageHeight - 100;
          boxes = draw_techs techs 0 40 (y - 45);
          currentY = snd boxes
      in drawPageHeader (u ''Technologies Detected'') pageNum @
         [DrawText (u ''Technology Stack Analysis'') 40 y 12,
          DrawText ((u ''Total Technologies Detected: '') @ show_nat (length techs)) 40 (y - 25) 10] @
         fst boxes @
         (if currentY > 100
          then [DrawRectangle 40 (currentY - 60) 515 60,
                DrawText (u ''Technology Stack: The frameworks, libraries, and platforms used to build your website. Understanding'')
                  55 (currentY - 30) 8,
                DrawText (u ''your tech stack helps evaluate maintenance, security, and scalability of your application.'')
                  55 (currentY - 42) 8]
          else []))"

text \<open>
  Page 10, the narrative summary and the recommendations. The loop over the
  recommendations stops after twelve of them, or when the cursor is below 80.
\<close>

definition page10 :: "str option \<Rightarrow> str list \<Rightarrow> nat \<Rightarrow> page" where
  "page10 aiSummary aiRecommendations pageNum =
     (let y = pageHeight - 100;
          summary =
            (case aiSummary of
               Some (c # cs) \<Rightarrow>
                 (let summaryLines = wrapText (c # cs) 470 9;
                      summaryHeight = min (of_nat (length summaryLines) * 12 + 20) (280::rat);
                      lines = draw_rows (\<lambda>y. False) (\<lambda>line y. [DrawText line 60 (y - 15) 9]) 12
                                (take (nat \<lfloor>summaryHeight / 12\<rfloor>) summaryLines) (y - 20)
                  in ([DrawText (u ''AI-Powered Summary'') 40 y 13,
                       DrawRectangle 40 (y - 20 - summaryHeight) 515 summaryHeight] @ fst lines,
                      snd lines - 30))
             | _ \<Rightarrow> ([], y));
          y = snd summary
      in drawPageHeader (u ''AI Analysis & Recommendations'') pageNum @ fst summary @
         (if length aiRecommendations > 0
          then DrawText (u ''Recommendations'') 40 y 13 #
               fst (draw_rows (\<lambda>y. y < 80)
                      (\<lambda>rec y. [DrawText (show_nat (fst rec + 1) @ (u ''. '') @ take 120 (snd rec))
                                   60 y 8])
                      14 (take 12 (zip [0 ..< length aiRecommendations] aiRecommendations))
                      (y - 18))
          else []))"

text \<open>
  The pages in the order of the \<^verbatim>\<open>addPage\<close> calls. Pages 1 to 5 are added on every
  run; each later page has its own guard. \<^verbatim>\<open>pageNum\<close> starts at 1 and is passed, then
  incremented, by every page after the first.
\<close>

fun number_pages :: "(nat \<Rightarrow> page) list \<Rightarrow> nat \<Rightarrow> page list" where
  "number_pages [] pageNum = []"
| "number_pages (p # ps) pageNum = p pageNum # number_pages ps (pageNum + 1)"

definition optional_pages ::
  "PipelineResults \<Rightarrow> str option \<Rightarrow> str list \<Rightarrow> (nat \<Rightarrow> page) list" where
  "optional_pages r aiSummary aiRecommendations =
     (case field_of core_web_vitals (performance r) of
        Some (Some cwv) \<Rightarrow> [page6 cwv] | _ \<Rightarrow> []) @
     (case field_of lighthouse_scores (performance r) of
        Some (Some lh) \<Rightarrow> [page7 lh] | _ \<Rightarrow> []) @
     (case e2e r of Some sec \<Rightarrow> [page8 r] | None \<Rightarrow> []) @
     (if length (technologies r) > 0 then [page9 (technologies r)] else []) @
     (if str_or aiSummary [] \<noteq> [] \<or> length aiRecommendations > 0
      then [page10 aiSummary aiRecommendations] else [])"

definition generateReport ::
  "str \<Rightarrow> str \<Rightarrow> int \<Rightarrow> PipelineResults \<Rightarrow> TopIssue list \<Rightarrow> str option \<Rightarrow> str list
   \<Rightarrow> page list" where
  "generateReport url scanDate overallScore r topIssues aiSummary aiRecommendations =
     page1 url scanDate overallScore r #
     number_pages ([page2 r, page3 topIssues, page4 r, page5 r]
                   @ optional_pages r aiSummary aiRecommendations) 1"

section \<open>Scan orchestrator\<close>

text \<open>
  The two tables. Times are milliseconds since the epoch. A row of \<^verbatim>\<open>scan_results\<close>
  holds the status and, after the final write, everything that write stores.
\<close>

record RateLimit =
  scan_count :: int
  window_start :: int
  last_scan_at :: int

record ScanRow =
  scan_status :: str
  overall_score :: "int option"
  e2e_results :: "E2EResults PipelineSection option"
  api_results :: "APIResults PipelineSection option"
  security_results :: "SecurityResults PipelineSection option"
  performance_results :: "PerformanceResults PipelineSection option"
  accessibility_results :: "AccessibilityResults PipelineSection option"
  tech_stack :: "TechStackResult PipelineSection option"
  top_issues :: "TopIssue list"
  ai_summary :: "str option"
  ai_recommendations :: "str list"
  performance_score :: "int option"
  seo_score :: "int option"
  accessibility_issue_count :: "nat option"
  security_checks_passed :: "int option"
  security_checks_total :: "int option"
  row_technologies :: "str list"
  exposed_endpoints :: "str list"
  og_image :: "str option"
  pdf_report :: "page list option"

record db =
  scan_results :: "str \<rightharpoonup> ScanRow"
  rate_limits :: "str \<rightharpoonup> RateLimit"

text \<open>\<^verbatim>\<open>supabase.from("scan_results").update(fields).eq("id", scanId)\<close>\<close>

definition update_scan :: "str \<Rightarrow> (ScanRow \<Rightarrow> ScanRow) \<Rightarrow> db \<Rightarrow> db" where
  "update_scan scanId f d =
     (case scan_results d scanId of
        None \<Rightarrow> d
      | Some row \<Rightarrow> d\<lparr>scan_results := (scan_results d)(scanId \<mapsto> f row)\<rparr>)"

text \<open>
  The admission step of \<^verbatim>\<open>processScan\<close>: the row of the domain is read; a row whose
  window started less than an hour ago and whose count has reached 5 rejects the scan;
  any other row has its count incremented and \<^verbatim>\<open>last_scan_at\<close> set, its
  \<^verbatim>\<open>window_start\<close> is not written; without a row one is inserted with count 1.
\<close>

datatype admission = Admitted | RateLimitExceeded

definition admit :: "int \<Rightarrow> str \<Rightarrow> db \<Rightarrow> admission \<times> db" where
  "admit now domain d =
     (case rate_limits d domain of
        Some rateLimit \<Rightarrow>
          (let hourAgo = now - 60 * 60 * 1000 in
           if window_start rateLimit > hourAgo \<and> scan_count rateLimit \<ge> 5
           then (RateLimitExceeded, d)
           else (Admitted,
                 d\<lparr>rate_limits := (rate_limits d)(domain \<mapsto>
                      rateLimit\<lparr>scan_count := scan_count rateLimit + 1, last_scan_at := now\<rparr>)\<rparr>))
      | None \<Rightarrow>
          (Admitted,
           d\<lparr>rate_limits := (rate_limits d)(domain \<mapsto>
                \<lparr>scan_count = 1, window_start = now, last_scan_at = now\<rparr>)\<rparr>))"

text \<open>
  What \<^verbatim>\<open>processScan\<close> obtains from outside besides the analyzers' inputs: the clock,
  the host name that \<^verbatim>\<open>new URL(url)\<close> yields (\<open>None\<close> when it throws), the image found
  by the separate fetch for the preview, the outcome of the narrative analysis, the
  formatted scan date, whether the document library throws, and whether the final write
  reports an error.
\<close>

record process_env =
  scan :: scan_env
  now :: int
  hostname :: "str option"
  ogImage :: "str option"
  aiAnalysis :: "str option \<times> str list"
  scanDate :: str
  pdf_throws :: bool
  update_error :: bool

definition final_write ::
  "str \<Rightarrow> process_env \<Rightarrow> PipelineResults \<Rightarrow> ScanRow \<Rightarrow> ScanRow" where
  "final_write url env scanResults row =
     (let topIssues = extractTopIssues scanResults;
          overallScore = calculateOverallScore scanResults;
          aiSummary = fst (aiAnalysis env);
          aiRecommendations = snd (aiAnalysis env);
          pdfBase64 =
            (if pdf_throws env then None
             else Some (generateReport url (scanDate env) overallScore scanResults topIssues
                          aiSummary aiRecommendations))
      in row\<lparr>scan_status := (u ''completed''),
             overall_score := Some overallScore,
             e2e_results := e2e scanResults,
             api_results := api scanResults,
             security_results := security scanResults,
             performance_results := performance scanResults,
             accessibility_results := accessibility scanResults,
             tech_stack := techStack scanResults,
             top_issues := topIssues,
             ai_summary := aiSummary,
             ai_recommendations := aiRecommendations,
             performance_score := Some (performanceScore scanResults),
             seo_score := Some (seoScore scanResults),
             accessibility_issue_count := Some (accessibilityIssueCount scanResults),
             security_checks_passed := Some (securityChecksPassed scanResults),
             security_checks_total := Some 7,
             row_technologies := technologies scanResults,
             exposed_endpoints := exposedEndpoints scanResults,
             og_image := ogImage env,
             pdf_report := pdfBase64\<rparr>)"

text \<open>
  \<^verbatim>\<open>processScan\<close>. An exception inside the outer \<^verbatim>\<open>try\<close> (the URL does not parse, the
  final write reports an error) is caught and the status is set to \<^verbatim>\<open>failed\<close>.
\<close>

definition processScan :: "str \<Rightarrow> str \<Rightarrow> process_env \<Rightarrow> db \<Rightarrow> db" where
  "processScan scanId url env d =
     (let d = update_scan scanId (\<lambda>row. row\<lparr>scan_status := (u ''processing'')\<rparr>) d in
      case hostname env of
        None \<Rightarrow> update_scan scanId (\<lambda>row. row\<lparr>scan_status := (u ''failed'')\<rparr>) d
      | Some domain \<Rightarrow>
          (case admit (now env) domain d of
             (RateLimitExceeded, d) \<Rightarrow>
               update_scan scanId (\<lambda>row. row\<lparr>scan_status := (u ''failed'')\<rparr>) d
           | (Admitted, d) \<Rightarrow>
               (let scanResults = performScan url (scan env) in
                if update_error env
                then update_scan scanId (\<lambda>row. row\<lparr>scan_status := (u ''failed'')\<rparr>) d
                else update_scan scanId (final_write url env scanResults) d)))"

section \<open>The aggregation formula of the specification\<close>












section \<open>Notions used in the statements\<close>

text \<open>The quoted argument of a matched call, and whether it is a root-relative path.\<close>

definition call_path :: "str \<Rightarrow> str" where
  "call_path m = (case quoted_path m of Some path \<Rightarrow> path | None \<Rightarrow> [])"

definition root_relative_call :: "str \<Rightarrow> bool" where
  "root_relative_call m = (call_path m \<noteq> [] \<and> startsWith (call_path m) (u ''/''))"

text \<open>
  A failed section as the specification describes it: status failed, an error text and
  zero-valued metrics. The zero-valued metrics of the six analyzers follow (those of the
  interactive-elements analyzer are \<open>e2e_zero\<close> above).
\<close>

definition failed_with :: "'a \<Rightarrow> str \<Rightarrow> 'a PipelineSection" where
  "failed_with zero msg = \<lparr>payload = Some zero, status = Some Failed, error = Some msg\<rparr>"



definition performance_zero :: PerformanceResults where
  "performance_zero =
     \<lparr>perf_score = 0, load_time_ms = 0, image_count = None, scripts_count = None,
      stylesheets_count = None, compression_enabled = None, caching_enabled = None,
      lighthouse_scores = None, core_web_vitals = None, source = None,
      opportunities = None, diagnostics = None\<rparr>"



definition analyzer_statuses :: "PipelineResults \<Rightarrow> status option list" where
  "analyzer_statuses r =
     [status_of (e2e r), status_of (api r), status_of (security r), status_of (performance r),
      status_of (accessibility r), status_of (techStack r)]"

text \<open>
  The performance service gave no result: no key is configured, or the call threw. Then
  the performance analyzer depends on its own fetch of the page.
\<close>

definition no_pagespeed_result :: "(thrown + PageSpeedData) option \<Rightarrow> bool" where
  "no_pagespeed_result ps = (case ps of Some (Inr reply) \<Rightarrow> False | _ \<Rightarrow> True)"

text \<open>A sequence of admissions for one domain at the given times.\<close>

fun admissions :: "int list \<Rightarrow> str \<Rightarrow> db \<Rightarrow> admission list \<times> db" where
  "admissions [] domain d = ([], d)"
| "admissions (t # ts) domain d =
     (let step = admit t domain d; rest = admissions ts domain (snd step)
      in (fst step # fst rest, snd rest))"



text \<open>
  The optional sections of the report, and the results with Core Web Vitals added to the
  performance record.
\<close>

definition has_vitals :: "PipelineResults \<Rightarrow> bool" where
  "has_vitals r =
     (case field_of core_web_vitals (performance r) of Some (Some cwv) \<Rightarrow> True | _ \<Rightarrow> False)"

definition has_category_scores :: "PipelineResults \<Rightarrow> bool" where
  "has_category_scores r =
     (case field_of lighthouse_scores (performance r) of Some (Some lh) \<Rightarrow> True | _ \<Rightarrow> False)"


definition with_core_web_vitals :: "CoreWebVitals \<Rightarrow> PipelineResults \<Rightarrow> PipelineResults" where
  "with_core_web_vitals cwv r =
     r\<lparr>performance :=
         map_option (\<lambda>s. s\<lparr>payload := map_option (\<lambda>p. p\<lparr>core_web_vitals := Some cwv\<rparr>) (payload s)\<rparr>)
           (performance r)\<rparr>"

section \<open>Sample inputs\<close>

definition bare_page :: response where
  "bare_page = \<lparr>ok = True, http_status = 200, headers = Map.empty,
                 body = (u ''<html><body><p>Hello</p></body></html>'')\<rparr>"

definition three_images_page :: response where
  "three_images_page = \<lparr>ok = True, http_status = 200, headers = Map.empty,
     body = (u ''<html><body><a href=\"#main\">Skip</a><img src=\"a.png\"><img src=\"b.png\"><img src=\"c.png\"></body></html>'')\<rparr>"

definition repeated_call_page :: response where
  "repeated_call_page = \<lparr>ok = True, http_status = 200, headers = Map.empty,
     body = (u ''<script>fetch('/api/a'); fetch('/api/a');</script>'')\<rparr>"

definition unreachable :: fetched where
  "unreachable = Inl (Error (u ''Connection refused''))"

definition unreachable_site :: scan_env where
  "unreachable_site =
     \<lparr>fetch_e2e = unreachable, fetch_api = unreachable, fetch_security = unreachable,
      fetch_performance = unreachable, fetch_accessibility = unreachable,
      fetch_techStack = unreachable, parse_dom = (\<lambda>html. None), pagespeed = None,
      loadTime = 0\<rparr>"

definition unreachable_run :: process_env where
  "unreachable_run =
     \<lparr>scan = unreachable_site, now = 1000, hostname = Some (u ''example.com''), ogImage = None,
      aiAnalysis = (None, []), scanDate = (u ''1/1/2026, 12:00:00 AM''), pdf_throws = False,
      update_error = False\<rparr>"

definition pending_row :: ScanRow where
  "pending_row =
     \<lparr>scan_status = (u ''pending''), overall_score = None, e2e_results = None, api_results = None,
      security_results = None, performance_results = None, accessibility_results = None,
      tech_stack = None, top_issues = [], ai_summary = None, ai_recommendations = [],
      performance_score = None, seo_score = None, accessibility_issue_count = None,
      security_checks_passed = None, security_checks_total = None, row_technologies = [],
      exposed_endpoints = [], og_image = None, pdf_report = None\<rparr>"

definition one_pending_scan :: db where
  "one_pending_scan = \<lparr>scan_results = [(u ''scan-1'') \<mapsto> pending_row], rate_limits = Map.empty\<rparr>"

definition no_scans :: db where
  "no_scans = \<lparr>scan_results = Map.empty, rate_limits = Map.empty\<rparr>"




section \<open>Literals\<close>

lemma u_eq_iff [simp]: "(u a = u b) = (a = b)"
  by (simp add: u_def inj_map_eq_map inj_on_def)

lemma u_Nil [simp]: "u [] = []"
  by (simp add: u_def)

lemma u_eq_Nil [simp]: "(u a = []) = (a = [])"
  by (simp add: u_def)

lemma Nil_eq_u [simp]: "([] = u a) = (a = [])"
  by (auto simp add: u_def)

lemma u_append: "u a @ u b = u (a @ b)"
  by (simp add: u_def)

section \<open>Rate limiter\<close>

lemma admit_rejects:
  assumes "rate_limits d domain = Some w"
    and "window_start w > t - 60 * 60 * 1000" and "scan_count w \<ge> 5"
  shows "admit t domain d = (RateLimitExceeded, d)"
  using assms by (simp add: admit_def Let_def)

lemma admit_increments:
  assumes "rate_limits d domain = Some w"
    and "\<not> (window_start w > t - 60 * 60 * 1000 \<and> scan_count w \<ge> 5)"
  shows "admit t domain d =
     (Admitted, d\<lparr>rate_limits := (rate_limits d)(domain \<mapsto>
                    w\<lparr>scan_count := scan_count w + 1, last_scan_at := t\<rparr>)\<rparr>)"
  using assms by (simp add: admit_def Let_def)

lemma admit_creates:
  assumes "rate_limits d domain = None"
  shows "admit t domain d =
     (Admitted, d\<lparr>rate_limits := (rate_limits d)(domain \<mapsto>
                    \<lparr>scan_count = 1, window_start = t, last_scan_at = t\<rparr>)\<rparr>)"
  using assms by (simp add: admit_def)

text \<open>
  C1. The first five admissions of a domain within an hour succeed and the sixth is
  rejected. After the hour (here 61 minutes after the first scan) the next admission does
  not start a new window with count 1: the elapsed window is kept, its count goes on to
  6, 7, 8, and since \<open>window_start\<close> is never written again every later scan of the
  domain is admitted.
\<close>

theorem rate_limit_window_never_resets:
  "fst (admissions [0, 1000, 2000, 3000, 4000, 5000] (u ''example.com'') no_scans) =
     [Admitted, Admitted, Admitted, Admitted, Admitted, RateLimitExceeded] \<and>
   fst (admissions [0, 1000, 2000, 3000, 4000, 3660000, 3660001, 3660002] (u ''example.com'')
          no_scans) =
     [Admitted, Admitted, Admitted, Admitted, Admitted, Admitted, Admitted, Admitted] \<and>
   rate_limits (snd (admissions [0, 1000, 2000, 3000, 4000, 3660000] (u ''example.com'') no_scans))
     (u ''example.com'') = Some \<lparr>scan_count = 6, window_start = 0, last_scan_at = 3660000\<rparr>"
proof -
  have a: "fst (admissions [0, 1000, 2000, 3000, 4000, 5000] (u ''example.com'') no_scans) =
          [Admitted, Admitted, Admitted, Admitted, Admitted, RateLimitExceeded]"
    by code_simp
  have b: "fst (admissions [0, 1000, 2000, 3000, 4000, 3660000, 3660001, 3660002]
                  (u ''example.com'') no_scans) =
          [Admitted, Admitted, Admitted, Admitted, Admitted, Admitted, Admitted, Admitted]"
    by code_simp
  have c: "rate_limits (snd (admissions [0, 1000, 2000, 3000, 4000, 3660000] (u ''example.com'')
                               no_scans)) (u ''example.com'') =
          Some \<lparr>scan_count = 6, window_start = 0, last_scan_at = 3660000\<rparr>"
    by code_simp
  show ?thesis
    by (rule conjI [OF a conjI [OF b c]])
qed

section \<open>Overall score\<close>



















section \<open>Orchestrator: what a finished scan persists\<close>

lemma rate_limits_update_scan [simp]: "rate_limits (update_scan i f d) = rate_limits d"
  by (simp add: update_scan_def split: option.splits)

lemma admit_update_scan:
  "admit t dm (update_scan i f d) =
     (fst (admit t dm d), update_scan i f (snd (admit t dm d)))"
  by (auto simp: admit_def update_scan_def Let_def split: option.splits)

lemma scan_results_admit [simp]: "scan_results (snd (admit t dm d)) = scan_results d"
  by (simp add: admit_def Let_def split: option.splits)

lemma processScan_final_write:
  assumes "hostname env = Some domain"
    and "fst (admit (now env) domain d) = Admitted"
    and "\<not> update_error env"
    and "scan_results d scanId = Some row"
  shows "scan_results (processScan scanId url env d) scanId =
           Some (final_write url env (performScan url (scan env))
                   (row\<lparr>scan_status := (u ''processing'')\<rparr>))"
proof -
  let ?d1 = "update_scan scanId (\<lambda>row. row\<lparr>scan_status := (u ''processing'')\<rparr>) d"
  have a: "admit (now env) domain ?d1 =
             (Admitted, update_scan scanId (\<lambda>row. row\<lparr>scan_status := (u ''processing'')\<rparr>)
                          (snd (admit (now env) domain d)))"
    using assms(2) by (simp add: admit_update_scan)
  have "processScan scanId url env d =
          update_scan scanId (final_write url env (performScan url (scan env)))
            (update_scan scanId (\<lambda>row. row\<lparr>scan_status := (u ''processing'')\<rparr>)
               (snd (admit (now env) domain d)))"
    using assms(1,3) by (simp add: processScan_def Let_def a)
  then show ?thesis
    using assms(4) by (simp add: update_scan_def)
qed

lemma final_write_fields [simp]:
  "scan_status (final_write url env r row) = (u ''completed'')"
  "overall_score (final_write url env r row) = Some (calculateOverallScore r)"
  "security_checks_passed (final_write url env r row) = Some (securityChecksPassed r)"
  "security_checks_total (final_write url env r row) = Some 7"
  by (simp_all add: final_write_def Let_def)

lemma sample_run_facts:
  "hostname unreachable_run = Some (u ''example.com'')"
  "fst (admit (now unreachable_run) (u ''example.com'') one_pending_scan) = Admitted"
  "\<not> update_error unreachable_run"
  "scan_results one_pending_scan (u ''scan-1'') = Some pending_row"
  "scan unreachable_run = unreachable_site"
  by (simp_all add: unreachable_run_def admit_def one_pending_scan_def)

lemma score_without_completed:
  assumes "status_of (security r) \<noteq> Some Completed"
    and "status_of (performance r) \<noteq> Some Completed"
    and "status_of (accessibility r) \<noteq> Some Completed"
    and "status_of (e2e r) \<noteq> Some Completed"
    and "status_of (api r) \<noteq> Some Completed"
  shows "calculateOverallScore r = 0"
  using assms
  by (simp add: calculateOverallScore_def add_security_def add_performance_def
      add_accessibility_def add_e2e_def add_api_def)

lemma unreachable_statuses:
  "analyzer_statuses (performScan url unreachable_site) =
     [Some Failed, Some Failed, Some Failed, Some Failed, Some Failed, Some Failed]"
  by (simp add: analyzer_statuses_def performScan_def unreachable_site_def unreachable_def
      status_of_def performE2EScan_def performAPIScan_def performSecurityScan_def
      performPerformanceScan_def performBasicPerformanceScan_def performAccessibilityScan_def
      detectTechStack_def)

text \<open>
  C3 (as amended). When no analyzer of a scan reaches status completed, the overall score
  is 0; if the scan was admitted and the final write succeeds, the persisted overall
  score is 0 and the persisted status is \<^verbatim>\<open>completed\<close>.
\<close>

theorem zero_completed_scan:
  assumes "Some Completed \<notin> set (analyzer_statuses (performScan url (scan env)))"
    and "hostname env = Some domain"
    and "fst (admit (now env) domain d) = Admitted"
    and "\<not> update_error env"
    and "scan_results d scanId = Some row"
  shows "calculateOverallScore (performScan url (scan env)) = 0 \<and>
         map_option overall_score (scan_results (processScan scanId url env d) scanId)
           = Some (Some 0) \<and>
         map_option scan_status (scan_results (processScan scanId url env d) scanId)
           = Some (u ''completed'')"
proof -
  have z: "calculateOverallScore (performScan url (scan env)) = 0"
    using assms(1) by (intro score_without_completed) (auto simp: analyzer_statuses_def)
  show ?thesis
    by (simp add: processScan_final_write [OF assms(2-5)] z)
qed

theorem zero_completed_scan_witness:
  "calculateOverallScore (performScan (u ''https://example.com'') (scan unreachable_run)) = 0 \<and>
   map_option overall_score
     (scan_results (processScan (u ''scan-1'') (u ''https://example.com'') unreachable_run one_pending_scan)
        (u ''scan-1'')) = Some (Some 0) \<and>
   map_option scan_status
     (scan_results (processScan (u ''scan-1'') (u ''https://example.com'') unreachable_run one_pending_scan)
        (u ''scan-1'')) = Some (u ''completed'')"
proof -
  have 0: "Some Completed \<notin> set (analyzer_statuses
             (performScan (u ''https://example.com'') (scan unreachable_run)))"
    by (simp add: sample_run_facts(5) unreachable_statuses)
  show ?thesis
    by (rule zero_completed_scan [OF 0 sample_run_facts(1-4)])
qed

text \<open>
  C3 as stated fails: every analyzer of this scan fails, and the scan ends with the
  persisted status \<^verbatim>\<open>completed\<close>, not \<^verbatim>\<open>failed\<close>.
\<close>

theorem zero_completed_scan_counterexample:
  "analyzer_statuses (performScan (u ''https://example.com'') (scan unreachable_run)) =
     [Some Failed, Some Failed, Some Failed, Some Failed, Some Failed, Some Failed] \<and>
   map_option scan_status
     (scan_results (processScan (u ''scan-1'') (u ''https://example.com'') unreachable_run one_pending_scan)
        (u ''scan-1'')) = Some (u ''completed'')"
  by (simp add: processScan_final_write [OF sample_run_facts(1-4)] sample_run_facts(5)
      unreachable_statuses)

section \<open>Failure of one analyzer\<close>

lemma performance_scan_failed:
  "no_pagespeed_result ps \<Longrightarrow>
   performPerformanceScan ps lt (Inl e) =
     failed_with performance_zero (message_or e (u ''Performance scan failed''))"
  by (auto simp: no_pagespeed_result_def performPerformanceScan_def
        performGooglePageSpeedScan_def performBasicPerformanceScan_def failed_with_def
        performance_zero_def split: option.splits sum.splits)





section \<open>Security analyzer\<close>

text \<open>
  C5. A response without any of the five checked headers and without a cookie-writing
  script yields exactly 5 issues and 2 passed checks of 7; every completed security scan
  has performed 7 checks and passed 7 minus the number of its issues.
\<close>

theorem security_scan_checks:
  "(header_missing r (u ''strict-transport-security'') \<and>
    header_missing r (u ''content-security-policy'') \<and>
    header_missing r (u ''x-frame-options'') \<and>
    header_missing r (u ''x-content-type-options'') \<and>
    header_missing r (u ''x-xss-protection'') \<and>
    js_match_g (body r) rx_cookie = []
    \<longrightarrow> map_option (\<lambda>p. (length (sec_issues p), checks_passed p, checks_performed p))
          (payload (performSecurityScan url (Inr r))) = Some (5, 2, 7)) \<and>
   (status (performSecurityScan url f) = Some Completed
    \<longrightarrow> (\<exists>p. payload (performSecurityScan url f) = Some p \<and> checks_performed p = 7 \<and>
             checks_passed p = 7 - int (length (sec_issues p))))"
  by (cases f) (simp_all add: performSecurityScan_def security_issues_def Let_def)

theorem security_scan_checks_witness:
  "map_option (\<lambda>p. (length (sec_issues p), checks_passed p, checks_performed p))
     (payload (performSecurityScan (u ''https://example.com'') (Inr bare_page))) = Some (5, 2, 7) \<and>
   (\<exists>p. payload (performSecurityScan (u ''https://example.com'') (Inr bare_page)) = Some p \<and>
        checks_performed p = 7 \<and> checks_passed p = 7 - int (length (sec_issues p)))"
proof -
  have h: "header_missing bare_page (u ''strict-transport-security'')"
          "header_missing bare_page (u ''content-security-policy'')"
          "header_missing bare_page (u ''x-frame-options'')"
          "header_missing bare_page (u ''x-content-type-options'')"
          "header_missing bare_page (u ''x-xss-protection'')"
    by (simp_all add: header_missing_def bare_page_def)
  have c: "js_match_g (body bare_page) rx_cookie = []"
    by code_simp
  have s: "status (performSecurityScan (u ''https://example.com'') (Inr bare_page)) = Some Completed"
    by (simp add: performSecurityScan_def Let_def)
  show ?thesis
    using security_scan_checks [of bare_page "(u ''https://example.com'')" "Inr bare_page"] h c s
    by blast
qed

section \<open>Accessibility analyzer\<close>

text \<open>
  C6. A page on which the scan finds three images without alt text and no language
  attribute on the html element, and none of the other patterns, yields exactly two
  issues, a critical one for the images with count 3 and a high one for the language,
  and the level \<^verbatim>\<open>Fails Level A\<close>.
\<close>

theorem accessibility_images_and_language:
  assumes "length (js_match_g (body r) rx_img_without_alt) = 3"
    and "\<not> js_test rx_html_lang (body r)"
    and "js_match_g (body r) rx_empty_button = []"
    and "\<not> length (js_match_g (body r) (rx_tag ''input''))
           > length (js_match_g (body r) (rx_tag ''label'')) + 2"
    and "\<not> (length (js_match_g (body r) (rx_tag ''h1'')) = 0
           \<and> length (js_match_g (body r) rx_heading) > 0)"
    and "\<not> length (js_match_g (body r) (rx_tag ''h1'')) > 1"
    and "js_match_g (body r) rx_empty_link = []"
    and "js_test rx_skip_link (body r)"
    and "js_match_g (body r) rx_tabindex_negative = []"
  shows "performAccessibilityScan url (Inr r) =
     \<lparr>payload = Some
        \<lparr>a11y_issues =
           [\<lparr>a11y_severity = (u ''critical''),
             a11y_message = Some (u ''3 images missing alt text - screen readers cannot describe images''),
             a11y_count = Some 3, a11y_wcag = Some (u ''WCAG 2.1 Level A (1.1.1)'')\<rparr>,
            \<lparr>a11y_severity = (u ''high''),
             a11y_message = Some (u ''Missing lang attribute on html element - affects screen reader pronunciation''),
             a11y_count = None, a11y_wcag = Some (u ''WCAG 2.1 Level A (3.1.1)'')\<rparr>],
         total_issues = 2, a11y_score = 60, wcag_level = Some (u ''Fails Level A'')\<rparr>,
      status = Some Completed, error = None\<rparr>"
proof -
  have n: "show_nat 3 = (u ''3'')" by code_simp
  have "accessibility_issues (body r) =
          [a11y_issue (u ''critical'') (Some 3)
             ((u ''3'') @ (u '' images missing alt text - screen readers cannot describe images''))
             (u ''WCAG 2.1 Level A (1.1.1)''),
           a11y_issue (u ''high'') None
             (u ''Missing lang attribute on html element - affects screen reader pronunciation'')
             (u ''WCAG 2.1 Level A (3.1.1)'')]"
    using assms by (simp add: accessibility_issues_def Let_def n)
  then show ?thesis
    by (simp add: performAccessibilityScan_def Let_def a11y_issue_def severityPoints_def u_append)
qed

theorem accessibility_images_and_language_witness:
  "performAccessibilityScan (u ''https://example.com'') (Inr three_images_page) =
     \<lparr>payload = Some
        \<lparr>a11y_issues =
           [\<lparr>a11y_severity = (u ''critical''),
             a11y_message = Some (u ''3 images missing alt text - screen readers cannot describe images''),
             a11y_count = Some 3, a11y_wcag = Some (u ''WCAG 2.1 Level A (1.1.1)'')\<rparr>,
            \<lparr>a11y_severity = (u ''high''),
             a11y_message = Some (u ''Missing lang attribute on html element - affects screen reader pronunciation''),
             a11y_count = None, a11y_wcag = Some (u ''WCAG 2.1 Level A (3.1.1)'')\<rparr>],
         total_issues = 2, a11y_score = 60, wcag_level = Some (u ''Fails Level A'')\<rparr>,
      status = Some Completed, error = None\<rparr>"
proof -
  have 1: "length (js_match_g (body three_images_page) rx_img_without_alt) = 3"
    by code_simp
  have 2: "\<not> js_test rx_html_lang (body three_images_page)"
    by code_simp
  have 3: "js_match_g (body three_images_page) rx_empty_button = []"
    by code_simp
  have 4: "\<not> length (js_match_g (body three_images_page) (rx_tag ''input''))
           > length (js_match_g (body three_images_page) (rx_tag ''label'')) + 2"
    by code_simp
  have 5: "\<not> (length (js_match_g (body three_images_page) (rx_tag ''h1'')) = 0
              \<and> length (js_match_g (body three_images_page) rx_heading) > 0)"
    by code_simp
  have 6: "\<not> length (js_match_g (body three_images_page) (rx_tag ''h1'')) > 1"
    by code_simp
  have 7: "js_match_g (body three_images_page) rx_empty_link = []"
    by code_simp
  have 8: "js_test rx_skip_link (body three_images_page)"
    by code_simp
  have 9: "js_match_g (body three_images_page) rx_tabindex_negative = []"
    by code_simp
  show ?thesis
    by (rule accessibility_images_and_language [OF 1 2 3 4 5 6 7 8 9])
qed

section \<open>API-surface analyzer\<close>

lemma api_endpoints_filter:
  "api_endpoints html =
     map (\<lambda>m. \<lparr>ep_method = (u ''GET''), ep_path = call_path m, ep_status = 0\<rparr>)
         (filter root_relative_call (js_match_g html rx_api_call))"
proof -
  have "concat (map (\<lambda>m. case quoted_path m of
                          Some path \<Rightarrow>
                            if path \<noteq> [] \<and> startsWith path (u ''/'')
                            then [\<lparr>ep_method = (u ''GET''), ep_path = path, ep_status = 0\<rparr>]
                            else []
                        | None \<Rightarrow> []) ms) =
        map (\<lambda>m. \<lparr>ep_method = (u ''GET''), ep_path = call_path m, ep_status = 0\<rparr>)
         (filter root_relative_call ms)" for ms
    by (induction ms) (auto simp: root_relative_call_def call_path_def split: option.splits)
  then show ?thesis by (simp add: api_endpoints_def)
qed

text \<open>
  C7 (as amended). The endpoint list of a fetched page holds at most 10 entries; every
  entry is a root-relative path that is the quoted argument of an HTTP-call pattern
  matched in the page text; the list is the first ten such arguments in the order of
  the calls, a path called twice being listed twice.
\<close>

theorem api_endpoints_listed:
  assumes "payload (performAPIScan url (Inr r)) = Some p"
  shows "length (endpoints p) \<le> 10 \<and>
         list_all (\<lambda>e. startsWith (ep_path e) (u ''/'') \<and>
                       (\<exists>m \<in> set (js_match_g (body r) rx_api_call).
                          quoted_path m = Some (ep_path e))) (endpoints p) \<and>
         map ep_path (endpoints p) =
           take 10 (map call_path (filter root_relative_call (js_match_g (body r) rx_api_call)))"
proof -
  let ?ms = "filter root_relative_call (js_match_g (body r) rx_api_call)"
  have p: "endpoints p =
        take 10 (map (\<lambda>m. \<lparr>ep_method = (u ''GET''), ep_path = call_path m, ep_status = 0\<rparr>) ?ms)"
    using assms by (auto simp: performAPIScan_def Let_def api_endpoints_filter)
  have len: "length (endpoints p) \<le> 10" by (simp add: p)
  have paths: "map ep_path (endpoints p) = take 10 (map call_path ?ms)"
    by (simp add: p take_map o_def)
  have "\<forall>e \<in> set (endpoints p). \<exists>m \<in> set ?ms. ep_path e = call_path m"
    unfolding p by (fastforce dest!: in_set_takeD)
  then have "\<forall>e \<in> set (endpoints p). startsWith (ep_path e) (u ''/'') \<and>
               (\<exists>m \<in> set (js_match_g (body r) rx_api_call). quoted_path m = Some (ep_path e))"
    by (auto simp: root_relative_call_def call_path_def split: option.splits)
  then have "list_all (\<lambda>e. startsWith (ep_path e) (u ''/'') \<and>
                       (\<exists>m \<in> set (js_match_g (body r) rx_api_call).
                          quoted_path m = Some (ep_path e))) (endpoints p)"
    by (simp add: list_all_iff)
  with len paths show ?thesis by blast
qed

theorem api_endpoints_listed_witness:
  "\<exists>p. payload (performAPIScan (u ''https://example.com'') (Inr repeated_call_page)) = Some p \<and>
       length (endpoints p) \<le> 10 \<and> map ep_path (endpoints p) = [(u ''/api/a''), (u ''/api/a'')]"
proof -
  obtain p where p: "payload (performAPIScan (u ''https://example.com'') (Inr repeated_call_page)) = Some p"
    by (simp add: performAPIScan_def Let_def)
  have ms: "map call_path (filter root_relative_call
              (js_match_g (body repeated_call_page) rx_api_call)) = [(u ''/api/a''), (u ''/api/a'')]"
    by code_simp
  from api_endpoints_listed [OF p] ms p show ?thesis by simp
qed

text \<open>
  C7 as stated fails: a page that calls the same path twice yields a list in which the
  path appears twice.
\<close>

theorem api_endpoints_deduplicated_counterexample:
  "map_option endpoints (payload (performAPIScan (u ''https://example.com'') (Inr repeated_call_page)))
     = Some [\<lparr>ep_method = (u ''GET''), ep_path = (u ''/api/a''), ep_status = 0\<rparr>,
             \<lparr>ep_method = (u ''GET''), ep_path = (u ''/api/a''), ep_status = 0\<rparr>] \<and>
   \<not> distinct [(u ''/api/a''), (u ''/api/a'')]"
proof -
  have "api_endpoints (body repeated_call_page) =
          [\<lparr>ep_method = (u ''GET''), ep_path = (u ''/api/a''), ep_status = 0\<rparr>,
           \<lparr>ep_method = (u ''GET''), ep_path = (u ''/api/a''), ep_status = 0\<rparr>]"
    by code_simp
  then show ?thesis by (simp add: performAPIScan_def Let_def)
qed

section \<open>Top issues\<close>

lemma sort_rank_ge_1: "1 \<le> sort_rank i"
  by (simp add: sort_rank_def sortOrder_def split: option.splits)

lemma sorted_min_split:
  "sorted (map f ys) \<Longrightarrow> \<forall>y \<in> set ys. m \<le> f y \<Longrightarrow>
   ys = filter (\<lambda>y. f y = m) ys @ filter (\<lambda>y. f y \<noteq> m) ys"
  for f :: "'a \<Rightarrow> int"
proof (induction ys)
  case Nil
  then show ?case by simp
next
  case (Cons y ys)
  show ?case
  proof (cases "f y = m")
    case True
    with Cons show ?thesis by simp
  next
    case False
    have "\<forall>z \<in> set ys. f y \<le> f z" using Cons.prems(1) by auto
    moreover have "m < f y" using False Cons.prems(2) by force
    ultimately have "\<forall>z \<in> set ys. f z \<noteq> m" by force
    then have "filter (\<lambda>y. f y = m) ys = []" "filter (\<lambda>y. f y \<noteq> m) ys = ys"
      by (simp_all add: filter_empty_conv filter_id_conv)
    with False show ?thesis by simp
  qed
qed

lemma kept_in_top:
  fixes f :: "'a \<Rightarrow> int"
  assumes "x \<in> set xs" and "f x = m" and "\<forall>y \<in> set xs. m \<le> f y"
    and "length (filter (\<lambda>y. f y = m) xs) \<le> n"
  shows "x \<in> set (take n (sort_key f xs))"
proof -
  let ?ys = "sort_key f xs"
  let ?A = "filter (\<lambda>y. f y = m) ?ys"
  let ?B = "filter (\<lambda>y. f y \<noteq> m) ?ys"
  have "?ys = ?A @ ?B"
    by (rule sorted_min_split) (use assms(3) in simp_all)
  then have "take n ?ys = take n (?A @ ?B)" by simp
  moreover have "?A = filter (\<lambda>y. f y = m) xs"
    by (rule sort_key_stable)
  ultimately have "take n ?ys =
      filter (\<lambda>y. f y = m) xs @ take (n - length (filter (\<lambda>y. f y = m) xs)) ?B"
    using assms(4) by simp
  moreover have "x \<in> set (filter (\<lambda>y. f y = m) xs)" using assms(1,2) by simp
  ultimately show ?thesis by simp
qed

lemma high_security_issues:
  "length (filter (\<lambda>i. sec_severity i = (u ''high'')) (security_issues r)) \<le> 3"
proof -
  have "length (filter (\<lambda>i. sec_severity i = (u ''high'')) (security_issues r))
          \<le> 1 + (0 + (1 + (0 + (0 + 1))))"
    unfolding security_issues_def filter_append length_append
    by (intro add_mono) (simp_all add: security_issue_def)
  then show ?thesis by simp
qed

lemma high_accessibility_issues:
  "length (filter (\<lambda>i. a11y_severity i = (u ''high'')) (accessibility_issues html)) \<le> 3"
proof -
  have "length (filter (\<lambda>i. a11y_severity i = (u ''high'')) (accessibility_issues html))
          \<le> 0 + (1 + (0 + (1 + (0 + (1 + (0 + 0))))))"
    unfolding accessibility_issues_def Let_def filter_append length_append
    by (intro add_mono) (simp_all add: a11y_issue_def)
  then show ?thesis by simp
qed

lemma rank_one_iff_high:
  "(sort_rank \<lparr>category = c, severity = str_or (Some s) (u ''low''), description = d\<rparr> = 1)
     = (s = (u ''high''))"
  by (auto simp: sort_rank_def sortOrder_def str_or_def)

lemma poor_performance_rank: "sort_rank (poor_performance_issue sc) = 1"
  by (simp add: sort_rank_def sortOrder_def poor_performance_issue_def)

lemma scanned_security_issues:
  "\<exists>S. field_of sec_issues (security (performScan url env)) = Some S \<and>
       length (filter (\<lambda>i. sec_severity i = (u ''high'')) S) \<le> 3"
  by (cases "fetch_security env")
     (simp_all add: performScan_def performSecurityScan_def field_of_def Let_def
        high_security_issues)

lemma scanned_accessibility_issues:
  "\<exists>A. field_of a11y_issues (accessibility (performScan url env)) = Some A \<and>
       length (filter (\<lambda>i. a11y_severity i = (u ''high'')) A) \<le> 3"
  by (cases "fetch_accessibility env")
     (simp_all add: performScan_def performAccessibilityScan_def field_of_def Let_def
        high_accessibility_issues)

lemma poor_performance_kept:
  assumes "field_of perf_score (performance (performScan url env)) = Some sc" and "sc < 50"
  shows "poor_performance_issue sc \<in> set (extractTopIssues (performScan url env))"
proof -
  let ?r = "performScan url env"
  obtain S where S: "field_of sec_issues (security ?r) = Some S"
    and nS: "length (filter (\<lambda>i. sec_severity i = (u ''high'')) S) \<le> 3"
    using scanned_security_issues by blast
  obtain A where A: "field_of a11y_issues (accessibility ?r) = Some A"
    and nA: "length (filter (\<lambda>i. a11y_severity i = (u ''high'')) A) \<le> 3"
    using scanned_accessibility_issues by blast
  have mem: "poor_performance_issue sc \<in> set (collected_issues ?r)"
    using assms by (simp add: collected_issues_def)
  have cnt: "length (filter (\<lambda>y. sort_rank y = 1) (collected_issues ?r)) \<le> 10"
    using nS nA assms
    by (simp add: collected_issues_def S A filter_map o_def rank_one_iff_high
        poor_performance_rank)
  show ?thesis
    unfolding extractTopIssues_def
    by (rule kept_in_top [OF mem poor_performance_rank _ cnt]) (simp add: sort_rank_ge_1)
qed

lemma score_ignores_failed_performance:
  assumes "status_of (performance r) \<noteq> Some Completed"
  shows "calculateOverallScore r = calculateOverallScore (r\<lparr>performance := None\<rparr>)"
  using assms
  by (simp add: calculateOverallScore_def add_security_def add_performance_def
      add_accessibility_def add_e2e_def add_api_def status_of_def)

text \<open>
  C10. Whenever the performance result of a scan carries a score below 50, whatever its
  status, the high-severity poor-performance issue is among the top issues. In
  particular, when the performance analyzer fails in its own handler (its fetch throws
  and the performance service gave no result), its section has status failed and score
  0, the issue for score 0 is among the top issues, and the overall score is the one
  computed without any performance section.
\<close>

theorem poor_performance_regardless_of_status:
  "(field_of perf_score (performance (performScan url env)) = Some sc \<and> sc < 50 \<longrightarrow>
      poor_performance_issue sc \<in> set (extractTopIssues (performScan url env))) \<and>
   (fetch_performance env = Inl e \<and> no_pagespeed_result (pagespeed env) \<longrightarrow>
      status_of (performance (performScan url env)) = Some Failed \<and>
      field_of perf_score (performance (performScan url env)) = Some 0 \<and>
      poor_performance_issue 0 \<in> set (extractTopIssues (performScan url env)) \<and>
      calculateOverallScore (performScan url env) =
        calculateOverallScore ((performScan url env)\<lparr>performance := None\<rparr>))"
proof (intro conjI impI)
  assume "field_of perf_score (performance (performScan url env)) = Some sc \<and> sc < 50"
  then show "poor_performance_issue sc \<in> set (extractTopIssues (performScan url env))"
    using poor_performance_kept by blast
next
  assume a: "fetch_performance env = Inl e \<and> no_pagespeed_result (pagespeed env)"
  then have p: "performance (performScan url env) =
      Some (failed_with performance_zero (message_or e (u ''Performance scan failed'')))"
    by (simp add: performScan_def performance_scan_failed)
  show st: "status_of (performance (performScan url env)) = Some Failed"
    by (simp add: p status_of_def failed_with_def)
  show sc0: "field_of perf_score (performance (performScan url env)) = Some 0"
    by (simp add: p field_of_def failed_with_def performance_zero_def)
  show "poor_performance_issue 0 \<in> set (extractTopIssues (performScan url env))"
    by (rule poor_performance_kept [OF sc0]) simp
  show "calculateOverallScore (performScan url env) =
        calculateOverallScore ((performScan url env)\<lparr>performance := None\<rparr>)"
    by (rule score_ignores_failed_performance) (simp add: st)
qed

theorem poor_performance_regardless_of_status_witness:
  "status_of (performance (performScan (u ''https://example.com'') unreachable_site)) = Some Failed \<and>
   field_of perf_score (performance (performScan (u ''https://example.com'') unreachable_site))
     = Some 0 \<and>
   poor_performance_issue 0
     \<in> set (extractTopIssues (performScan (u ''https://example.com'') unreachable_site)) \<and>
   calculateOverallScore (performScan (u ''https://example.com'') unreachable_site) =
     calculateOverallScore
       ((performScan (u ''https://example.com'') unreachable_site)\<lparr>performance := None\<rparr>)"
proof -
  have a: "fetch_performance unreachable_site = Inl (Error (u ''Connection refused''))"
    by (simp add: unreachable_site_def unreachable_def)
  have b: "no_pagespeed_result (pagespeed unreachable_site)"
    by (simp add: unreachable_site_def no_pagespeed_result_def)
  show ?thesis
    using poor_performance_regardless_of_status
      [of "(u ''https://example.com'')" unreachable_site 0 "Error (u ''Connection refused'')"] a b
    by blast
qed

section \<open>Report pages\<close>

lemma technologies_with_vitals [simp]: "technologies (with_core_web_vitals cwv r) = technologies r"
  by (simp add: technologies_def with_core_web_vitals_def)

lemma number_pages_length [simp]: "length (number_pages ps n) = length ps"
  by (induction ps arbitrary: n) simp_all




lemma length_optional_pages:
  "length (optional_pages r aiSummary aiRecs) =
     (if has_vitals r then 1 else 0) + (if has_category_scores r then 1 else 0) +
     (if e2e r = None then 0 else 1) + (if technologies r = [] then 0 else 1) +
     (if str_or aiSummary [] \<noteq> [] \<or> aiRecs \<noteq> [] then 1 else 0)"
  by (auto simp: optional_pages_def has_vitals_def has_category_scores_def
        split: option.splits)



lemma scanned_report_pages:
  "6 \<le> length (generateReport url date score (performScan url env) issues aiSummary aiRecs)"
  by (simp add: generateReport_def length_optional_pages performScan_def)




end
